theory Spec2Isabelle
  imports Main "HOL-Library.Sublist"
begin

section \<open>The device orchestration script \<^verbatim>\<open>main.py\<close>\<close>

text \<open>
  \<^verbatim>\<open>main.py\<close> is glue around three collaborators that live in other modules: the
  provisioning handler (\<^verbatim>\<open>ProvisioningHandler\<close>), the job agent (\<^verbatim>\<open>DeviceJobAgent\<close>)
  and the local file system. The script itself is embedded function by function; the
  collaborators are parameters of the embedding (the record \<open>env\<close> below), so every
  theorem holds for any behaviour they may have. What the script does to the outside is
  recorded as a list of events, in program order.
\<close>

subsection \<open>Exceptions, settings and the provisioning handler's attributes\<close>

text \<open>
  \<open>IOError\<close> stands for Python's \<^verbatim>\<open>IOError\<close> (an alias of \<^verbatim>\<open>OSError\<close>, with its
  subclasses), the only class the script catches; \<open>IndexError\<close> is raised by
  \<^verbatim>\<open>files[0]\<close> on an empty list; \<open>OtherError\<close> is any other exception a collaborator
  raises.
\<close>

datatype exn = IOError | IndexError | OtherError string

text \<open>How a call ends: it returns a value, raises, or is still running when the fuel
  given to the job loop is used up.\<close>

datatype 'r outcome = Returned 'r | Raised exn | Running

text \<open>The module-level variables read from section \<^verbatim>\<open>SETTINGS\<close> of \<^verbatim>\<open>config.ini\<close>.\<close>

record config =
  secure_cert_path :: string
  bootstrap_cert :: string
  actua_cert_path :: string
  thing_prefix :: string

text \<open>The attributes of the module-level object \<^verbatim>\<open>provisioner\<close> that the script reads
  or assigns.\<close>

record provisioner =
  unique_id :: string
  iot_endpoint :: string
  actua_cert_path :: string
  secure_cert_path :: string
  root_cert :: string
  new_cert_name :: string
  new_key_name :: string
  isFirst :: bool

text \<open>The five positional arguments of the constructor \<^verbatim>\<open>DeviceJobAgent(...)\<close>.\<close>

record jobagent_args =
  thing_name :: string
  endpoint :: string
  cert_file :: string
  key_file :: string
  root_ca_file :: string

subsection \<open>Events\<close>

datatype event =
    Print string
  | Open_file string
  | Get_official_certs "bool option"
  | Test_restricted_topic string
  | Thread_start
  | New_DeviceJobAgent jobagent_args
  | Init
  | IsRebooting "exn + bool"
  | Sleep nat
  | Disconnect

text \<open>
  \<open>Get_official_certs kw\<close> is a call \<^verbatim>\<open>provisioner.get_official_certs(callback, ...)\<close>;
  \<open>kw\<close> is the keyword argument \<^verbatim>\<open>isRotation\<close> as the call site passes it, \<open>None\<close>
  when the call site leaves it out. \<open>IsRebooting r\<close> is a call of
  \<^verbatim>\<open>jobagent.isRebooting()\<close> together with how it ended.
\<close>

text \<open>The signature of \<^verbatim>\<open>get_official_certs\<close> is in \<^verbatim>\<open>provisioning_handler.py\<close>, not in
  \<^verbatim>\<open>main.py\<close>: the default of its parameter \<^verbatim>\<open>isRotation\<close> is a parameter here.\<close>

definition effective_isRotation :: "bool \<Rightarrow> bool option \<Rightarrow> bool" where
  "effective_isRotation dflt kw = (case kw of None \<Rightarrow> dflt | Some b \<Rightarrow> b)"

subsection \<open>The environment\<close>

text \<open>
  The file system is read through \<^verbatim>\<open>os.path.exists\<close>, \<^verbatim>\<open>os.path.isdir\<close>,
  \<^verbatim>\<open>os.listdir\<close> and \<^verbatim>\<open>open\<close>; \<open>listdir\<close> gives the entries in the order the
  operating system lists them, and \<open>py_open path\<close> is how \<^verbatim>\<open>open(path)\<close> ends:
  \<open>None\<close> when the file opens, \<open>Some e\<close> when it raises \<open>e\<close> (\<^verbatim>\<open>IOError\<close> for a
  missing or unreadable file, another exception for instance for a path with an
  embedded NUL character). The script does not touch the directory between its three
  listings, so one listing per path describes them.

  A method of the provisioning handler takes the handler's attributes and gives
  them back, with \<open>Some e\<close> when it raises \<open>e\<close>. The job agent is an object of an
  arbitrary state type \<open>'a\<close>; its methods are state transformers that may raise.
  The calls that are taken to return are \<^verbatim>\<open>print\<close>, \<^verbatim>\<open>os.listdir\<close> on an existing
  directory, the start of the sensor thread, \<^verbatim>\<open>time.sleep\<close> and the constructor of
  the job agent.
\<close>

record 'a env =
  cfg :: config
  path_exists :: "string \<Rightarrow> bool"
  path_isdir :: "string \<Rightarrow> bool"
  listdir :: "string \<Rightarrow> string list"
  py_open :: "string \<Rightarrow> exn option"
  get_official_certs :: "bool option \<Rightarrow> provisioner \<Rightarrow> exn option \<times> provisioner"
  test_restricted_topic :: "string \<Rightarrow> provisioner \<Rightarrow> exn option \<times> provisioner"
  new_jobagent :: "jobagent_args \<Rightarrow> 'a"
  init :: "'a \<Rightarrow> exn + 'a"
  isRebooting :: "'a \<Rightarrow> exn + bool \<times> 'a"
  disconnect :: "'a \<Rightarrow> exn + 'a"

text \<open>The file at \<open>path\<close> opens.\<close>

definition can_open :: "'a env \<Rightarrow> string \<Rightarrow> bool" where
  "can_open E path = (py_open E path = None)"

subsection \<open>Python primitives\<close>

text \<open>\<^verbatim>\<open>s.endswith(suf)\<close>\<close>

definition endswith :: "string \<Rightarrow> string \<Rightarrow> bool" where
  "endswith s suf = (length suf \<le> length s \<and> drop (length s - length suf) s = suf)"

text \<open>\<^verbatim>\<open>files[0]\<close>: raises \<^verbatim>\<open>IndexError\<close> on the empty list.\<close>

definition index0 :: "'b list \<Rightarrow> exn + 'b" where
  "index0 files = (case files of [] \<Rightarrow> Inl IndexError | x # _ \<Rightarrow> Inr x)"

text \<open>\<^verbatim>\<open>"{}/{}".format(a, b)\<close>\<close>

definition slash :: "string \<Rightarrow> string \<Rightarrow> string" where
  "slash a b = a @ ''/'' @ b"

subsection \<open>\<^verbatim>\<open>run_provisioning\<close>\<close>

text \<open>
  With \<^verbatim>\<open>isRotation\<close> the handler is called at once. Otherwise the bootstrap certificate
  is opened first and the handler is called inside the \<^verbatim>\<open>with\<close> block, itself inside
  the \<^verbatim>\<open>try\<close>: an \<^verbatim>\<open>IOError\<close> from \<^verbatim>\<open>open\<close> or from the handler is caught and
  reported; any other exception, of \<^verbatim>\<open>open\<close> or of the handler, propagates.
\<close>

definition bootstrap_missing_msg :: string where
  "bootstrap_missing_msg = ''### Bootstrap cert non-existent. Official cert may already be in place.''"

definition run_provisioning ::
  "'a env \<Rightarrow> bool \<Rightarrow> provisioner \<Rightarrow> event list \<times> unit outcome \<times> provisioner" where
  "run_provisioning E isRotation p =
     (if isRotation then
        (case get_official_certs E (Some True) p of
           (None, p') \<Rightarrow> ([Get_official_certs (Some True)], Returned (), p')
         | (Some e, p') \<Rightarrow> ([Get_official_certs (Some True)], Raised e, p'))
      else
        (let path = slash (config.secure_cert_path (cfg E)) (bootstrap_cert (cfg E)) in
         case py_open E path of
           None \<Rightarrow>
             (case get_official_certs E None p of
                (None, p') \<Rightarrow> ([Open_file path, Get_official_certs None], Returned (), p')
              | (Some IOError, p') \<Rightarrow>
                  ([Open_file path, Get_official_certs None, Print bootstrap_missing_msg],
                   Returned (), p')
              | (Some e, p') \<Rightarrow> ([Open_file path, Get_official_certs None], Raised e, p'))
         | Some IOError \<Rightarrow> ([Open_file path, Print bootstrap_missing_msg], Returned (), p)
         | Some e \<Rightarrow> ([Open_file path], Raised e, p)))"

subsection \<open>\<^verbatim>\<open>sensor_simulator\<close>\<close>

text \<open>The thread is created and started; what it does afterwards runs beside the
  script and is not part of this model.\<close>

definition sensor_simulator :: "event list" where
  "sensor_simulator = [Thread_start, Print ''Sensor thread Started'']"

subsection \<open>The job loop\<close>

text \<open>
  \<^verbatim>\<open>while not jobagent.isRebooting(): time.sleep(1)\<close>. One unit of fuel pays for one
  evaluation of the loop condition.
\<close>

fun poll_reboot :: "nat \<Rightarrow> 'a env \<Rightarrow> 'a \<Rightarrow> event list \<times> 'a outcome" where
  "poll_reboot 0 E s = ([], Running)"
| "poll_reboot (Suc n) E s =
     (case isRebooting E s of
        Inl e \<Rightarrow> ([IsRebooting (Inl e)], Raised e)
      | Inr (b, s') \<Rightarrow>
          if b then ([IsRebooting (Inr True)], Returned s')
          else (case poll_reboot n E s' of
                  (evs, r) \<Rightarrow> (IsRebooting (Inr False) # Sleep 1 # evs, r)))"

text \<open>
  \<^verbatim>\<open>while True: jobagent.init(); <poll>; jobagent.disconnect()\<close>. One unit of fuel pays
  for one iteration; the loop has no \<^verbatim>\<open>break\<close> and no \<^verbatim>\<open>return\<close>.
\<close>

fun job_loop :: "nat \<Rightarrow> 'a env \<Rightarrow> 'a \<Rightarrow> event list \<times> unit outcome" where
  "job_loop 0 E s = ([], Running)"
| "job_loop (Suc n) E s =
     (case init E s of
        Inl e \<Rightarrow> ([Init], Raised e)
      | Inr s1 \<Rightarrow>
          (case poll_reboot n E s1 of
             (evs, Running) \<Rightarrow> (Init # evs, Running)
           | (evs, Raised e) \<Rightarrow> (Init # evs, Raised e)
           | (evs, Returned s2) \<Rightarrow>
               (case disconnect E s2 of
                  Inl e \<Rightarrow> (Init # evs @ [Disconnect], Raised e)
                | Inr s3 \<Rightarrow>
                    (case job_loop n E s3 of
                       (evs', r) \<Rightarrow> (Init # evs @ Disconnect # evs', r)))))"

subsection \<open>\<^verbatim>\<open>check_real_cert\<close>\<close>

text \<open>The constructor call, written the same way in both branches of the script.\<close>

definition new_jobagent_args :: "config \<Rightarrow> provisioner \<Rightarrow> jobagent_args" where
  "new_jobagent_args c p =
     \<lparr>thing_name = thing_prefix c @ unique_id p,
      endpoint = iot_endpoint p,
      cert_file = slash (provisioner.actua_cert_path p) (new_cert_name p),
      key_file = slash (provisioner.actua_cert_path p) (new_key_name p),
      root_ca_file = slash (provisioner.secure_cert_path p) (root_cert p)\<rparr>"

text \<open>From the construction of the job agent to the end of either branch.\<close>

definition run_jobagent ::
  "nat \<Rightarrow> 'a env \<Rightarrow> provisioner \<Rightarrow> event list \<times> unit outcome \<times> provisioner" where
  "run_jobagent fuel E p =
     (let args = new_jobagent_args (cfg E) p in
      case job_loop fuel E (new_jobagent E args) of
        (evs, r) \<Rightarrow> (New_DeviceJobAgent args # evs, r, p))"

text \<open>The branch taken when the directory is empty (first boot).\<close>

definition first_boot ::
  "nat \<Rightarrow> 'a env \<Rightarrow> provisioner \<Rightarrow> event list \<times> unit outcome \<times> provisioner" where
  "first_boot fuel E p =
     (case run_provisioning E False p of
        (evs, Returned u, p1) \<Rightarrow>
          (case run_jobagent fuel E p1 of
             (evs', r, p2) \<Rightarrow>
               (Print ''Actual cert Directory is empty'' # evs
                  @ Print ''Starting sensor'' # sensor_simulator
                  @ Print ''Provisioning complete. Starting job agent to listen for jobs''
                  # evs', r, p2))
      | (evs, r, p1) \<Rightarrow> (Print ''Actual cert Directory is empty'' # evs, r, p1))"

subsection \<open>Discovery of the stored certificate and key\<close>

text \<open>
  The four lines of the second branch that pick the file names:
  \<^verbatim>\<open>files = [... if filename.endswith('.crt')]; provisioner.new_cert_name = files[0]\<close>
  and the same for \<^verbatim>\<open>'.key'\<close>. The first \<^verbatim>\<open>files[0]\<close> that fails raises, after
  the assignments before it have been made.
\<close>

definition discover_identity :: "string list \<Rightarrow> provisioner \<Rightarrow> exn option \<times> provisioner" where
  "discover_identity names p =
     (case index0 (filter (\<lambda>filename. endswith filename ''.crt'') names) of
        Inl e \<Rightarrow> (Some e, p)
      | Inr crt \<Rightarrow>
          (let p1 = p\<lparr>new_cert_name := crt\<rparr> in
           case index0 (filter (\<lambda>filename. endswith filename ''.key'') names) of
             Inl e \<Rightarrow> (Some e, p1)
           | Inr key \<Rightarrow> (None, p1\<lparr>new_key_name := key\<rparr>)))"

text \<open>The branch taken when the directory has entries.\<close>

definition directory_not_empty_msg :: string where
  "directory_not_empty_msg = ''Directory is not empty so actual cert downloaded''"

definition already_provisioned ::
  "nat \<Rightarrow> 'a env \<Rightarrow> provisioner \<Rightarrow> event list \<times> unit outcome \<times> provisioner" where
  "already_provisioned fuel E p =
     (case discover_identity (listdir E (config.actua_cert_path (cfg E))) (p\<lparr>isFirst := False\<rparr>) of
        (Some e, p1) \<Rightarrow> ([Print directory_not_empty_msg], Raised e, p1)
      | (None, p2) \<Rightarrow>
          (case test_restricted_topic E ''test message'' p2 of
             (Some e, p3) \<Rightarrow>
               ([Print directory_not_empty_msg, Test_restricted_topic ''test message''],
                Raised e, p3)
           | (None, p3) \<Rightarrow>
               (case run_jobagent fuel E p3 of
                  (evs', r, p4) \<Rightarrow>
                    (Print directory_not_empty_msg # Test_restricted_topic ''test message''
                       # Print ''Starting sensor'' # sensor_simulator
                       @ Print ''Starting job agent to listen for jobs''
                       # evs', r, p4))))"

definition check_real_cert ::
  "nat \<Rightarrow> 'a env \<Rightarrow> provisioner \<Rightarrow> event list \<times> unit outcome \<times> provisioner" where
  "check_real_cert fuel E p =
     (let dir = config.actua_cert_path (cfg E) in
      if path_exists E dir \<and> path_isdir E dir then
        if listdir E dir = [] then first_boot fuel E p
        else already_provisioned fuel E p
      else ([Print ''Given directory doesn't exist''], Returned (), p))"

subsection \<open>The order of calls in one cycle of the job loop\<close>

text \<open>
  The order the job loop is expected to keep, as an automaton over the events of the
  job agent: \<open>Init\<close> is accepted only when disconnected, \<open>IsRebooting\<close> only when
  connected, \<open>Sleep 1\<close> only after a poll that answered False, \<open>Disconnect\<close> only
  after a poll that answered True, and nothing after a poll that raised.
\<close>

datatype phase = Disconnected | Connected | Waiting | RebootPending | Stopped

fun next_phase :: "phase \<Rightarrow> event \<Rightarrow> phase option" where
  "next_phase Disconnected Init = Some Connected"
| "next_phase Connected (IsRebooting (Inr True)) = Some RebootPending"
| "next_phase Connected (IsRebooting (Inr False)) = Some Waiting"
| "next_phase Connected (IsRebooting (Inl e)) = Some Stopped"
| "next_phase Waiting (Sleep n) = (if n = 1 then Some Connected else None)"
| "next_phase RebootPending Disconnect = Some Disconnected"
| "next_phase ph ev = None"

fun run_phases :: "phase \<Rightarrow> event list \<Rightarrow> phase option" where
  "run_phases ph [] = Some ph"
| "run_phases ph (ev # evs) =
     (case next_phase ph ev of None \<Rightarrow> None | Some ph' \<Rightarrow> run_phases ph' evs)"

definition phase_after_poll :: "'a outcome \<Rightarrow> phase" where
  "phase_after_poll r =
     (case r of Returned s \<Rightarrow> RebootPending | Raised e \<Rightarrow> Stopped | Running \<Rightarrow> Connected)"

text \<open>The events of the job agent.\<close>

definition agent_events :: "event set" where
  "agent_events = {Init, Disconnect, Sleep 1} \<union> range IsRebooting"

text \<open>The methods of the job agent never raise.\<close>

definition agent_returns :: "'a env \<Rightarrow> bool" where
  "agent_returns E =
     (\<forall>s. \<not> isl (init E s) \<and> \<not> isl (isRebooting E s) \<and> \<not> isl (disconnect E s))"

subsection \<open>A concrete device\<close>

text \<open>
  Concrete settings, handler attributes and collaborators, on which the definitions can
  be run. The directory \<open>actualcerts\<close> exists when \<open>present\<close> and lists \<open>names\<close>; the
  bootstrap certificate opens when \<open>openable\<close> and is missing otherwise; the provisioning call returns and
  stores the identity of device 42; the probe ends as \<open>probe\<close> says; the state of the
  job agent counts its polls, and every third poll asks for a reboot.
\<close>

definition demo_config :: config where
  "demo_config =
     \<lparr>config.secure_cert_path = ''certs'', bootstrap_cert = ''claim.crt'',
      config.actua_cert_path = ''actualcerts'', thing_prefix = ''dev''\<rparr>"

definition demo_provisioner :: provisioner where
  "demo_provisioner =
     \<lparr>unique_id = ''0'', iot_endpoint = ''iot'', actua_cert_path = ''actualcerts'',
      secure_cert_path = ''certs'', root_cert = ''root.pem'', new_cert_name = [],
      new_key_name = [], isFirst = True\<rparr>"

definition demo_provisioned :: "provisioner \<Rightarrow> provisioner" where
  "demo_provisioned p =
     p\<lparr>unique_id := ''42'', new_cert_name := ''42.crt'', new_key_name := ''42.key''\<rparr>"

definition demo_env :: "bool \<Rightarrow> string list \<Rightarrow> bool \<Rightarrow> exn option \<Rightarrow> nat env" where
  "demo_env present names openable probe =
     \<lparr>cfg = demo_config,
      path_exists = (\<lambda>path. present \<and> path = ''actualcerts''),
      path_isdir = (\<lambda>path. present \<and> path = ''actualcerts''),
      listdir = (\<lambda>path. if path = ''actualcerts'' then names else []),
      py_open = (\<lambda>path. if openable then None else Some IOError),
      get_official_certs = (\<lambda>kw p. (None, demo_provisioned p)),
      test_restricted_topic = (\<lambda>message p. (probe, p)),
      new_jobagent = (\<lambda>args. 0),
      init = Inr,
      isRebooting = (\<lambda>s. Inr (s mod 3 = 2, Suc s)),
      disconnect = Inr\<rparr>"




text \<open>The calls of \<^verbatim>\<open>get_official_certs\<close>, whatever their keyword argument.\<close>

definition is_provisioning_call :: "event \<Rightarrow> bool" where
  "is_provisioning_call ev = (case ev of Get_official_certs kw \<Rightarrow> True | _ \<Rightarrow> False)"

text \<open>The path \<^verbatim>\<open>"{}/{}".format(secure_cert_path, bootstrap_cert)\<close> that
  \<^verbatim>\<open>run_provisioning\<close> opens.\<close>

definition bootstrap_path :: "'a env \<Rightarrow> string" where
  "bootstrap_path E = slash (config.secure_cert_path (cfg E)) (bootstrap_cert (cfg E))"

text \<open>No collaborator raises: the job agent's methods, \<^verbatim>\<open>get_official_certs\<close> and
  \<^verbatim>\<open>test_restricted_topic\<close> all return, and \<^verbatim>\<open>open\<close> returns or raises the
  \<^verbatim>\<open>IOError\<close> that the script catches.\<close>

definition collaborators_return :: "'a env \<Rightarrow> bool" where
  "collaborators_return E =
     (agent_returns E
      \<and> (\<forall>path. py_open E path = None \<or> py_open E path = Some IOError)
      \<and> (\<forall>kw p. fst (get_official_certs E kw p) = None)
      \<and> (\<forall>message p. fst (test_restricted_topic E message p) = None))"

section \<open>Unfolding the loops\<close>

lemma poll_reboot_raise:
  "isRebooting E s = Inl e \<Longrightarrow> poll_reboot (Suc n) E s = ([IsRebooting (Inl e)], Raised e)"
  by simp

lemma poll_reboot_true:
  "isRebooting E s = Inr (True, s') \<Longrightarrow>
   poll_reboot (Suc n) E s = ([IsRebooting (Inr True)], Returned s')"
  by simp

lemma poll_reboot_false:
  "isRebooting E s = Inr (False, s') \<Longrightarrow>
   poll_reboot (Suc n) E s =
     (IsRebooting (Inr False) # Sleep 1 # fst (poll_reboot n E s'), snd (poll_reboot n E s'))"
  by (simp add: case_prod_beta)

lemma poll_reboot_cases:
  obtains (raise) e where "isRebooting E s = Inl e"
  | (true) s' where "isRebooting E s = Inr (True, s')"
  | (false) s' where "isRebooting E s = Inr (False, s')"
proof (cases "isRebooting E s")
  case (Inl e)
  then show ?thesis by (rule raise)
next
  case (Inr bs)
  then show ?thesis by (cases bs; cases "fst bs") (auto intro: true false)
qed

lemma job_loop_init_raise:
  "init E s = Inl e \<Longrightarrow> job_loop (Suc n) E s = ([Init], Raised e)"
  by simp

lemma job_loop_poll_running:
  "init E s = Inr s1 \<Longrightarrow> snd (poll_reboot n E s1) = Running \<Longrightarrow>
   job_loop (Suc n) E s = (Init # fst (poll_reboot n E s1), Running)"
  by (cases "poll_reboot n E s1") simp

lemma job_loop_poll_raise:
  "init E s = Inr s1 \<Longrightarrow> snd (poll_reboot n E s1) = Raised e \<Longrightarrow>
   job_loop (Suc n) E s = (Init # fst (poll_reboot n E s1), Raised e)"
  by (cases "poll_reboot n E s1") simp

lemma job_loop_disconnect_raise:
  "init E s = Inr s1 \<Longrightarrow> snd (poll_reboot n E s1) = Returned s2 \<Longrightarrow>
   disconnect E s2 = Inl e \<Longrightarrow>
   job_loop (Suc n) E s = (Init # fst (poll_reboot n E s1) @ [Disconnect], Raised e)"
  by (cases "poll_reboot n E s1") simp

lemma job_loop_again:
  "init E s = Inr s1 \<Longrightarrow> snd (poll_reboot n E s1) = Returned s2 \<Longrightarrow>
   disconnect E s2 = Inr s3 \<Longrightarrow>
   job_loop (Suc n) E s =
     (Init # fst (poll_reboot n E s1) @ Disconnect # fst (job_loop n E s3),
      snd (job_loop n E s3))"
  by (cases "poll_reboot n E s1") (simp add: case_prod_beta)

lemma job_loop_cases:
  obtains (init_raise) e where "init E s = Inl e"
  | (poll_running) s1 where "init E s = Inr s1" "snd (poll_reboot n E s1) = Running"
  | (poll_raise) s1 e where "init E s = Inr s1" "snd (poll_reboot n E s1) = Raised e"
  | (disconnect_raise) s1 s2 e where "init E s = Inr s1"
      "snd (poll_reboot n E s1) = Returned s2" "disconnect E s2 = Inl e"
  | (again) s1 s2 s3 where "init E s = Inr s1"
      "snd (poll_reboot n E s1) = Returned s2" "disconnect E s2 = Inr s3"
proof (cases "init E s")
  case (Inl e)
  then show ?thesis by (rule init_raise)
next
  case (Inr s1)
  show ?thesis
  proof (cases "snd (poll_reboot n E s1)")
    case (Returned s2)
    show ?thesis
    proof (cases "disconnect E s2")
      case (Inl e)
      with Inr Returned show ?thesis by (rule disconnect_raise)
    next
      case (Inr s3)
      with \<open>init E s = Inr s1\<close> Returned show ?thesis by (rule again)
    qed
  next
    case (Raised e)
    with Inr show ?thesis by (rule poll_raise)
  next
    case Running
    with Inr show ?thesis by (rule poll_running)
  qed
qed

section \<open>Invariants of the loops\<close>

lemma run_phases_append:
  "run_phases ph (xs @ ys) =
     (case run_phases ph xs of None \<Rightarrow> None | Some ph' \<Rightarrow> run_phases ph' ys)"
  by (induction xs arbitrary: ph) (auto split: option.splits)

lemma poll_reboot_phases:
  "run_phases Connected (fst (poll_reboot n E s)) = Some (phase_after_poll (snd (poll_reboot n E s)))"
proof (induction n arbitrary: s)
  case 0
  show ?case by (simp add: phase_after_poll_def)
next
  case (Suc n)
  show ?case
  proof (cases rule: poll_reboot_cases [where E=E and s=s])
    case (raise e)
    then show ?thesis by (simp add: phase_after_poll_def)
  next
    case (true s')
    then show ?thesis by (simp add: phase_after_poll_def)
  next
    case (false s')
    show ?thesis unfolding poll_reboot_false [OF false] using Suc.IH [of s'] by simp
  qed
qed

lemma job_loop_phases:
  "\<exists>ph. run_phases Disconnected (fst (job_loop n E s)) = Some ph"
proof (induction n arbitrary: s)
  case 0
  show ?case by simp
next
  case (Suc n)
  show ?case
  proof (cases rule: job_loop_cases [where E=E and s=s and n=n])
    case (init_raise e)
    then show ?thesis by simp
  next
    case (poll_running s1)
    show ?thesis unfolding job_loop_poll_running [OF poll_running]
      using poll_reboot_phases [of n E s1] by simp
  next
    case (poll_raise s1 e)
    show ?thesis unfolding job_loop_poll_raise [OF poll_raise]
      using poll_reboot_phases [of n E s1] by simp
  next
    case (disconnect_raise s1 s2 e)
    show ?thesis unfolding job_loop_disconnect_raise [OF disconnect_raise]
      using poll_reboot_phases [of n E s1] disconnect_raise(2)
      by (simp add: run_phases_append phase_after_poll_def)
  next
    case (again s1 s2 s3)
    show ?thesis unfolding job_loop_again [OF again]
      using poll_reboot_phases [of n E s1] again(2) Suc.IH [of s3]
      by (simp add: run_phases_append phase_after_poll_def)
  qed
qed

lemma poll_reboot_events:
  "set (fst (poll_reboot n E s)) \<subseteq> insert (Sleep 1) (range IsRebooting)"
proof (induction n arbitrary: s)
  case 0
  show ?case by simp
next
  case (Suc n)
  show ?case
  proof (cases rule: poll_reboot_cases [where E=E and s=s])
    case (raise e)
    then show ?thesis by simp
  next
    case (true s')
    then show ?thesis by simp
  next
    case (false s')
    show ?thesis unfolding poll_reboot_false [OF false] using Suc.IH [of s'] by auto
  qed
qed

lemma poll_reboot_agent_events: "set (fst (poll_reboot n E s)) \<subseteq> agent_events"
  using poll_reboot_events [of n E s] unfolding agent_events_def by auto

lemma job_loop_events: "set (fst (job_loop n E s)) \<subseteq> agent_events"
proof (induction n arbitrary: s)
  case 0
  show ?case by simp
next
  case (Suc n)
  have i: "Init \<in> agent_events" and d: "Disconnect \<in> agent_events"
    by (simp_all add: agent_events_def)
  show ?case
  proof (cases rule: job_loop_cases [where E=E and s=s and n=n])
    case (init_raise e)
    then show ?thesis using i by simp
  next
    case (poll_running s1)
    show ?thesis unfolding job_loop_poll_running [OF poll_running]
      using poll_reboot_agent_events [of n E s1] i by simp
  next
    case (poll_raise s1 e)
    show ?thesis unfolding job_loop_poll_raise [OF poll_raise]
      using poll_reboot_agent_events [of n E s1] i by simp
  next
    case (disconnect_raise s1 s2 e)
    show ?thesis unfolding job_loop_disconnect_raise [OF disconnect_raise]
      using poll_reboot_agent_events [of n E s1] i d by simp
  next
    case (again s1 s2 s3)
    show ?thesis unfolding job_loop_again [OF again]
      using poll_reboot_agent_events [of n E s1] Suc.IH [of s3] i d by simp
  qed
qed

lemma job_loop_never_returns: "snd (job_loop n E s) \<noteq> Returned u"
proof (induction n arbitrary: s)
  case 0
  show ?case by simp
next
  case (Suc n)
  show ?case
  proof (cases rule: job_loop_cases [where E=E and s=s and n=n])
    case (init_raise e)
    then show ?thesis by simp
  next
    case (poll_running s1)
    show ?thesis unfolding job_loop_poll_running [OF poll_running] by simp
  next
    case (poll_raise s1 e)
    show ?thesis unfolding job_loop_poll_raise [OF poll_raise] by simp
  next
    case (disconnect_raise s1 s2 e)
    show ?thesis unfolding job_loop_disconnect_raise [OF disconnect_raise] by simp
  next
    case (again s1 s2 s3)
    show ?thesis unfolding job_loop_again [OF again] using Suc.IH [of s3] by simp
  qed
qed

lemma poll_reboot_stable:
  "snd (poll_reboot n E s) \<noteq> Running \<Longrightarrow> poll_reboot (Suc n) E s = poll_reboot n E s"
proof (induction n arbitrary: s)
  case 0
  then show ?case by simp
next
  case (Suc n)
  show ?case
  proof (cases rule: poll_reboot_cases [where E=E and s=s])
    case (raise e)
    then show ?thesis by (simp only: poll_reboot_raise)
  next
    case (true s')
    then show ?thesis by (simp only: poll_reboot_true)
  next
    case (false s')
    have "snd (poll_reboot n E s') \<noteq> Running"
      using Suc.prems unfolding poll_reboot_false [OF false] by simp
    from Suc.IH [OF this] show ?thesis
      by (simp only: poll_reboot_false [OF false])
  qed
qed

lemma poll_reboot_prefix:
  "prefix (fst (poll_reboot n E s)) (fst (poll_reboot (Suc n) E s))"
proof (induction n arbitrary: s)
  case 0
  show ?case by simp
next
  case (Suc n)
  show ?case
  proof (cases rule: poll_reboot_cases [where E=E and s=s])
    case (raise e)
    then show ?thesis by (simp only: poll_reboot_raise prefix_order.order_refl)
  next
    case (true s')
    then show ?thesis by (simp only: poll_reboot_true prefix_order.order_refl)
  next
    case (false s')
    show ?thesis using Suc.IH [of s']
      by (simp only: poll_reboot_false [OF false] fst_conv Cons_prefix_Cons simp_thms)
  qed
qed

lemma poll_reboot_length:
  "snd (poll_reboot n E s) = Running \<Longrightarrow> length (fst (poll_reboot n E s)) = 2 * n"
proof (induction n arbitrary: s)
  case 0
  show ?case by simp
next
  case (Suc n)
  show ?case
  proof (cases rule: poll_reboot_cases [where E=E and s=s])
    case (raise e)
    then show ?thesis using Suc.prems by simp
  next
    case (true s')
    then show ?thesis using Suc.prems by simp
  next
    case (false s')
    have "snd (poll_reboot n E s') = Running"
      using Suc.prems unfolding poll_reboot_false [OF false] by simp
    from Suc.IH [OF this] show ?thesis
      unfolding poll_reboot_false [OF false] by simp
  qed
qed

lemma job_loop_starts:
  assumes i: "init E s = Inr s1"
  shows "\<exists>rest. fst (job_loop (Suc n) E s) = Init # fst (poll_reboot n E s1) @ rest"
proof (cases rule: job_loop_cases [where E=E and s=s and n=n])
  case (init_raise e)
  with i show ?thesis by simp
next
  case (poll_running s1')
  show ?thesis unfolding job_loop_poll_running [OF poll_running]
    using poll_running(1) i by simp
next
  case (poll_raise s1' e)
  show ?thesis unfolding job_loop_poll_raise [OF poll_raise]
    using poll_raise(1) i by simp
next
  case (disconnect_raise s1' s2 e)
  show ?thesis unfolding job_loop_disconnect_raise [OF disconnect_raise]
    using disconnect_raise(1) i by simp
next
  case (again s1' s2 s3)
  show ?thesis unfolding job_loop_again [OF again]
    using again(1) i by simp
qed

lemma job_loop_stable:
  "snd (job_loop n E s) \<noteq> Running \<Longrightarrow> job_loop (Suc n) E s = job_loop n E s"
proof (induction n arbitrary: s)
  case 0
  then show ?case by simp
next
  case (Suc n)
  show ?case
  proof (cases rule: job_loop_cases [where E=E and s=s and n=n])
    case (init_raise e)
    then show ?thesis by (simp only: job_loop_init_raise)
  next
    case (poll_running s1)
    then show ?thesis using Suc.prems
      unfolding job_loop_poll_running [OF poll_running] by simp
  next
    case (poll_raise s1 e)
    have st: "poll_reboot (Suc n) E s1 = poll_reboot n E s1"
      using poll_raise(2) by (intro poll_reboot_stable) simp
    have "snd (poll_reboot (Suc n) E s1) = Raised e"
      using poll_raise(2) st by simp
    from job_loop_poll_raise [OF poll_raise(1) this] show ?thesis
      unfolding job_loop_poll_raise [OF poll_raise] st .
  next
    case (disconnect_raise s1 s2 e)
    have st: "poll_reboot (Suc n) E s1 = poll_reboot n E s1"
      using disconnect_raise(2) by (intro poll_reboot_stable) simp
    have "snd (poll_reboot (Suc n) E s1) = Returned s2"
      using disconnect_raise(2) st by simp
    from job_loop_disconnect_raise [OF disconnect_raise(1) this disconnect_raise(3)]
    show ?thesis
      unfolding job_loop_disconnect_raise [OF disconnect_raise] st .
  next
    case (again s1 s2 s3)
    have st: "poll_reboot (Suc n) E s1 = poll_reboot n E s1"
      using again(2) by (intro poll_reboot_stable) simp
    have r: "snd (poll_reboot (Suc n) E s1) = Returned s2"
      using again(2) st by simp
    have "snd (job_loop n E s3) \<noteq> Running"
      using Suc.prems unfolding job_loop_again [OF again] by simp
    from Suc.IH [OF this] show ?thesis
      unfolding job_loop_again [OF again(1) r again(3)] job_loop_again [OF again] st
      by simp
  qed
qed

lemma job_loop_prefix:
  "prefix (fst (job_loop n E s)) (fst (job_loop (Suc n) E s))"
proof (induction n arbitrary: s)
  case 0
  show ?case by simp
next
  case (Suc n)
  show ?case
  proof (cases rule: job_loop_cases [where E=E and s=s and n=n])
    case (init_raise e)
    then show ?thesis by (simp only: job_loop_init_raise prefix_order.order_refl)
  next
    case (poll_running s1)
    from job_loop_starts [OF poll_running(1), of "Suc n"] obtain rest where
      r: "fst (job_loop (Suc (Suc n)) E s) = Init # fst (poll_reboot (Suc n) E s1) @ rest"
      by blast
    from poll_reboot_prefix [of n E s1] obtain more where
      m: "fst (poll_reboot (Suc n) E s1) = fst (poll_reboot n E s1) @ more"
      unfolding prefix_def by blast
    show ?thesis unfolding r m job_loop_poll_running [OF poll_running] by simp
  next
    case (poll_raise s1 e)
    have "snd (job_loop (Suc n) E s) \<noteq> Running"
      unfolding job_loop_poll_raise [OF poll_raise] by simp
    from job_loop_stable [OF this] show ?thesis by simp
  next
    case (disconnect_raise s1 s2 e)
    have "snd (job_loop (Suc n) E s) \<noteq> Running"
      unfolding job_loop_disconnect_raise [OF disconnect_raise] by simp
    from job_loop_stable [OF this] show ?thesis by simp
  next
    case (again s1 s2 s3)
    have st: "poll_reboot (Suc n) E s1 = poll_reboot n E s1"
      using again(2) by (intro poll_reboot_stable) simp
    have r: "snd (poll_reboot (Suc n) E s1) = Returned s2"
      using again(2) st by simp
    show ?thesis
      unfolding job_loop_again [OF again(1) r again(3)] job_loop_again [OF again] st
      using Suc.IH [of s3] by simp
  qed
qed

lemma job_loop_length:
  "snd (job_loop n E s) = Running \<Longrightarrow> n \<le> length (fst (job_loop n E s))"
proof (induction n arbitrary: s)
  case 0
  show ?case by simp
next
  case (Suc n)
  show ?case
  proof (cases rule: job_loop_cases [where E=E and s=s and n=n])
    case (init_raise e)
    then show ?thesis using Suc.prems by simp
  next
    case (poll_running s1)
    show ?thesis unfolding job_loop_poll_running [OF poll_running]
      using poll_reboot_length [OF poll_running(2)] by simp
  next
    case (poll_raise s1 e)
    show ?thesis using Suc.prems unfolding job_loop_poll_raise [OF poll_raise] by simp
  next
    case (disconnect_raise s1 s2 e)
    show ?thesis using Suc.prems
      unfolding job_loop_disconnect_raise [OF disconnect_raise] by simp
  next
    case (again s1 s2 s3)
    have "snd (job_loop n E s3) = Running"
      using Suc.prems unfolding job_loop_again [OF again] by simp
    from Suc.IH [OF this] show ?thesis unfolding job_loop_again [OF again] by simp
  qed
qed

lemma poll_reboot_no_raise:
  "agent_returns E \<Longrightarrow> snd (poll_reboot n E s) \<noteq> Raised e"
proof (induction n arbitrary: s)
  case 0
  show ?case by simp
next
  case (Suc n)
  show ?case
  proof (cases rule: poll_reboot_cases [where E=E and s=s])
    case (raise e')
    with Suc.prems have False unfolding agent_returns_def by (metis isl_def)
    then show ?thesis ..
  next
    case (true s')
    then show ?thesis by simp
  next
    case (false s')
    show ?thesis unfolding poll_reboot_false [OF false]
      using Suc.IH [OF Suc.prems, of s'] by simp
  qed
qed

lemma job_loop_runs:
  "agent_returns E \<Longrightarrow> snd (job_loop n E s) = Running"
proof (induction n arbitrary: s)
  case 0
  show ?case by simp
next
  case (Suc n)
  show ?case
  proof (cases rule: job_loop_cases [where E=E and s=s and n=n])
    case (init_raise e)
    with Suc.prems have False unfolding agent_returns_def by (metis isl_def)
    then show ?thesis ..
  next
    case (poll_running s1)
    show ?thesis unfolding job_loop_poll_running [OF poll_running] by simp
  next
    case (poll_raise s1 e)
    with poll_reboot_no_raise [OF Suc.prems, of n s1 e] show ?thesis by simp
  next
    case (disconnect_raise s1 s2 e)
    with Suc.prems have False unfolding agent_returns_def by (metis isl_def)
    then show ?thesis ..
  next
    case (again s1 s2 s3)
    show ?thesis unfolding job_loop_again [OF again]
      using Suc.IH [OF Suc.prems, of s3] by simp
  qed
qed

section \<open>The order of the job agent's calls\<close>

lemma next_phase_Disconnect:
  "next_phase q Disconnect = Some q' \<Longrightarrow> q = RebootPending \<and> q' = Disconnected"
  by (cases q) simp_all

lemma next_phase_IsRebooting:
  "next_phase q (IsRebooting r) = Some q' \<Longrightarrow> q = Connected"
  by (cases q) simp_all

lemma next_phase_from_Disconnected:
  "next_phase Disconnected ev = Some q' \<Longrightarrow> ev = Init"
  by (cases ev) simp_all

lemma next_phase_to_RebootPending:
  "next_phase q ev = Some RebootPending \<Longrightarrow> ev = IsRebooting (Inr True)"
  by (erule next_phase.elims) (simp_all split: if_splits)

lemma next_phase_to_Connected:
  "next_phase q ev = Some Connected \<Longrightarrow> ev = Init \<or> ev = Sleep 1"
  by (erule next_phase.elims) (simp_all split: if_splits)

lemma run_phases_split:
  assumes "run_phases ph t = Some ph'" and "i < length t"
  shows "\<exists>q q'. run_phases ph (take i t) = Some q \<and> next_phase q (t ! i) = Some q'
           \<and> run_phases q' (drop (Suc i) t) = Some ph'"
proof -
  have "t = take i t @ t ! i # drop (Suc i) t"
    using assms(2) by (simp add: id_take_nth_drop)
  then have "run_phases ph (take i t @ t ! i # drop (Suc i) t) = Some ph'"
    using assms(1) by simp
  then show ?thesis
    by (simp add: run_phases_append split: option.splits)
qed

lemma run_phases_last:
  assumes "run_phases ph xs = Some ph'" and "xs \<noteq> []"
  shows "\<exists>q. next_phase q (last xs) = Some ph'"
proof -
  have "run_phases ph (butlast xs @ [last xs]) = Some ph'"
    using assms by simp
  then show ?thesis
    by (simp only: run_phases_append) (auto split: option.splits)
qed

lemma last_take_nth: "0 < i \<Longrightarrow> i < length t \<Longrightarrow> last (take i t) = t ! (i - 1)"
  by (cases i) (simp_all add: take_Suc_conv_app_nth)

lemma accepted_before_Disconnect:
  assumes "run_phases Disconnected t = Some ph'" and "i < length t" and "t ! i = Disconnect"
  shows "0 < i \<and> t ! (i - 1) = IsRebooting (Inr True)"
proof -
  from run_phases_split [OF assms(1,2)] obtain q q' where
    a: "run_phases Disconnected (take i t) = Some q" and b: "next_phase q (t ! i) = Some q'"
    by blast
  from b assms(3) have q: "q = RebootPending" using next_phase_Disconnect by simp
  have pos: "0 < i"
  proof (rule ccontr)
    assume "\<not> 0 < i"
    then have "take i t = []" by simp
    with a q show False by simp
  qed
  then have ne: "take i t \<noteq> []" using assms(2) by auto
  from run_phases_last [OF a ne] q have "last (take i t) = IsRebooting (Inr True)"
    using next_phase_to_RebootPending by blast
  moreover have "last (take i t) = t ! (i - 1)"
    using pos assms(2) by (rule last_take_nth)
  ultimately show ?thesis using pos by simp
qed

lemma accepted_after_Disconnect:
  assumes "run_phases Disconnected t = Some ph'" and "Suc i < length t" and "t ! i = Disconnect"
  shows "t ! Suc i = Init"
proof -
  have i: "i < length t" using assms(2) by simp
  from run_phases_split [OF assms(1) i] obtain q q' where
    b: "next_phase q (t ! i) = Some q'" and c: "run_phases q' (drop (Suc i) t) = Some ph'"
    by blast
  from b assms(3) have q': "q' = Disconnected" using next_phase_Disconnect by simp
  have "drop (Suc i) t = t ! Suc i # drop (Suc (Suc i)) t"
    using assms(2) by (simp add: Cons_nth_drop_Suc)
  with c q' have "next_phase Disconnected (t ! Suc i) \<noteq> None"
    by (auto split: option.splits)
  then show ?thesis using next_phase_from_Disconnected by blast
qed

lemma accepted_before_IsRebooting:
  assumes "run_phases Disconnected t = Some ph'" and "i < length t" and "t ! i = IsRebooting r"
  shows "0 < i \<and> (t ! (i - 1) = Init \<or> t ! (i - 1) = Sleep 1)"
proof -
  from run_phases_split [OF assms(1,2)] obtain q q' where
    a: "run_phases Disconnected (take i t) = Some q" and b: "next_phase q (t ! i) = Some q'"
    by blast
  from b assms(3) have q: "q = Connected" using next_phase_IsRebooting by simp
  have pos: "0 < i"
  proof (rule ccontr)
    assume "\<not> 0 < i"
    then have "take i t = []" by simp
    with a q show False by simp
  qed
  then have ne: "take i t \<noteq> []" using assms(2) by auto
  from run_phases_last [OF a ne] q
  have "last (take i t) = Init \<or> last (take i t) = Sleep 1"
    using next_phase_to_Connected by blast
  moreover have "last (take i t) = t ! (i - 1)"
    using pos assms(2) by (rule last_take_nth)
  ultimately show ?thesis using pos by simp
qed

lemma job_loop_hd: "fst (job_loop (Suc n) E s) \<noteq> [] \<and> hd (fst (job_loop (Suc n) E s)) = Init"
proof (cases rule: job_loop_cases [where E=E and s=s and n=n])
  case (init_raise e)
  then show ?thesis by simp
next
  case (poll_running s1)
  show ?thesis unfolding job_loop_poll_running [OF poll_running] by simp
next
  case (poll_raise s1 e)
  show ?thesis unfolding job_loop_poll_raise [OF poll_raise] by simp
next
  case (disconnect_raise s1 s2 e)
  show ?thesis unfolding job_loop_disconnect_raise [OF disconnect_raise] by simp
next
  case (again s1 s2 s3)
  show ?thesis unfolding job_loop_again [OF again] by simp
qed

lemma poll_reboot_grows:
  "snd (poll_reboot n E s) = Running \<Longrightarrow>
   length (fst (poll_reboot n E s)) < length (fst (poll_reboot (Suc n) E s))"
proof (induction n arbitrary: s)
  case 0
  show ?case
    by (cases rule: poll_reboot_cases [where E=E and s=s])
      (simp_all add: poll_reboot_false poll_reboot_raise poll_reboot_true
         del: poll_reboot.simps(2))
next
  case (Suc n)
  show ?case
  proof (cases rule: poll_reboot_cases [where E=E and s=s])
    case (raise e)
    with Suc.prems show ?thesis by simp
  next
    case (true s')
    with Suc.prems show ?thesis by simp
  next
    case (false s')
    have "snd (poll_reboot n E s') = Running"
      using Suc.prems unfolding poll_reboot_false [OF false] by simp
    from Suc.IH [OF this] show ?thesis
      by (simp only: poll_reboot_false [OF false] fst_conv list.size)
  qed
qed

lemma poll_reboot_not_returned_0: "snd (poll_reboot 0 E s) \<noteq> Returned s2"
  by simp

lemma job_loop_grows:
  "snd (job_loop n E s) = Running \<Longrightarrow>
   length (fst (job_loop n E s)) < length (fst (job_loop (Suc n) E s))"
proof (induction n arbitrary: s)
  case 0
  show ?case using job_loop_hd [of 0 E s] by simp
next
  case (Suc n)
  show ?case
  proof (cases rule: job_loop_cases [where E=E and s=s and n=n])
    case (init_raise e)
    with Suc.prems show ?thesis by simp
  next
    case (poll_running s1)
    from job_loop_starts [OF poll_running(1), of "Suc n"] obtain rest where
      r: "fst (job_loop (Suc (Suc n)) E s) = Init # fst (poll_reboot (Suc n) E s1) @ rest"
      by blast
    show ?thesis unfolding r job_loop_poll_running [OF poll_running]
      using poll_reboot_grows [OF poll_running(2)] by simp
  next
    case (poll_raise s1 e)
    show ?thesis using Suc.prems unfolding job_loop_poll_raise [OF poll_raise] by simp
  next
    case (disconnect_raise s1 s2 e)
    show ?thesis using Suc.prems
      unfolding job_loop_disconnect_raise [OF disconnect_raise] by simp
  next
    case (again s1 s2 s3)
    have st: "poll_reboot (Suc n) E s1 = poll_reboot n E s1"
      using again(2) by (intro poll_reboot_stable) simp
    have r: "snd (poll_reboot (Suc n) E s1) = Returned s2"
      using again(2) st by simp
    have "snd (job_loop n E s3) = Running"
      using Suc.prems unfolding job_loop_again [OF again] by simp
    from Suc.IH [OF this] show ?thesis
      unfolding job_loop_again [OF again(1) r again(3)] job_loop_again [OF again] st
      by simp
  qed
qed

lemma poll_reboot_no_Disconnect: "Disconnect \<notin> set (fst (poll_reboot n E s))"
  using poll_reboot_events [of n E s] by auto

lemma job_loop_last_Disconnect:
  "fst (job_loop n E s) \<noteq> [] \<Longrightarrow> last (fst (job_loop n E s)) = Disconnect \<Longrightarrow>
   \<exists>e. snd (job_loop n E s) = Raised e"
proof (induction n arbitrary: s)
  case 0
  then show ?case by simp
next
  case (Suc n)
  show ?case
  proof (cases rule: job_loop_cases [where E=E and s=s and n=n])
    case (init_raise e)
    then show ?thesis by simp
  next
    case (poll_running s1)
    have "last (Init # fst (poll_reboot n E s1)) \<noteq> Disconnect"
    proof (cases "fst (poll_reboot n E s1) = []")
      case True
      then show ?thesis by simp
    next
      case False
      then have "last (fst (poll_reboot n E s1)) \<in> set (fst (poll_reboot n E s1))"
        by simp
      with poll_reboot_no_Disconnect [of n E s1] False show ?thesis by (metis last_ConsR)
    qed
    with Suc.prems(2) show ?thesis unfolding job_loop_poll_running [OF poll_running] by simp
  next
    case (poll_raise s1 e)
    show ?thesis unfolding job_loop_poll_raise [OF poll_raise] by simp
  next
    case (disconnect_raise s1 s2 e)
    show ?thesis unfolding job_loop_disconnect_raise [OF disconnect_raise] by simp
  next
    case (again s1 s2 s3)
    obtain m where n: "n = Suc m"
      using again(2) by (cases n) simp_all
    have ne: "fst (job_loop n E s3) \<noteq> []"
      unfolding n using job_loop_hd [of m E s3] by simp
    have "last (fst (job_loop n E s3)) = Disconnect"
      using Suc.prems(2) ne unfolding job_loop_again [OF again] by simp
    from Suc.IH [OF ne this] show ?thesis unfolding job_loop_again [OF again] by simp
  qed
qed

text \<open>
  C8. In every run of the job loop, whatever the job agent does and however long the
  run is: the first call is \<open>init()\<close>; \<open>disconnect()\<close> is called only directly after a
  call of \<open>isRebooting()\<close> that returned True, and the call that follows it is
  \<open>init()\<close>; every call of \<open>isRebooting()\<close> comes directly after \<open>init()\<close> or
  after \<open>sleep(1)\<close>; the whole run is accepted by the automaton \<open>run_phases\<close>. The
  loop never returns and goes on: while it runs, a run with fuel \<open>n\<close> has made at
  least \<open>n\<close> calls, more fuel makes it strictly longer without changing what was
  there, and every \<open>disconnect()\<close> in it is already followed by \<open>init()\<close>. A cycle
  whose \<open>disconnect()\<close> returns continues with the loop again, which starts with
  \<open>init()\<close>.
\<close>

theorem job_loop_cycle_order:
  assumes t: "t = fst (job_loop n E s)"
  shows "(0 < n \<longrightarrow> t \<noteq> [] \<and> hd t = Init)
       \<and> (\<exists>ph. run_phases Disconnected t = Some ph)
       \<and> (\<forall>i<length t. t ! i = Disconnect \<longrightarrow>
             0 < i \<and> t ! (i - 1) = IsRebooting (Inr True)
             \<and> (Suc i < length t \<longrightarrow> t ! Suc i = Init))
       \<and> (\<forall>i<length t. \<forall>r. t ! i = IsRebooting r \<longrightarrow>
             0 < i \<and> (t ! (i - 1) = Init \<or> t ! (i - 1) = Sleep 1))
       \<and> (snd (job_loop n E s) = Running \<longrightarrow> n \<le> length t)
       \<and> prefix t (fst (job_loop (Suc n) E s))
       \<and> snd (job_loop n E s) \<noteq> Returned ()
       \<and> (\<forall>i<length t. t ! i = Disconnect \<and> snd (job_loop n E s) = Running \<longrightarrow>
             Suc i < length t \<and> t ! Suc i = Init)
       \<and> (snd (job_loop n E s) = Running \<longrightarrow>
             length t < length (fst (job_loop (Suc n) E s)))
       \<and> (\<forall>s1 s2 s3. init E s = Inr s1 \<and> snd (poll_reboot n E s1) = Returned s2
             \<and> disconnect E s2 = Inr s3 \<longrightarrow>
             job_loop (Suc n) E s =
               (Init # fst (poll_reboot n E s1) @ Disconnect # fst (job_loop n E s3),
                snd (job_loop n E s3))
             \<and> fst (job_loop n E s3) \<noteq> [] \<and> hd (fst (job_loop n E s3)) = Init)"
proof -
  from job_loop_phases [of n E s] obtain ph where ph: "run_phases Disconnected t = Some ph"
    unfolding t by blast
  have a: "0 < n \<longrightarrow> t \<noteq> [] \<and> hd t = Init"
    using job_loop_hd [of "n - 1" E s] unfolding t by (cases n) simp_all
  have b: "\<forall>i<length t. t ! i = Disconnect \<longrightarrow>
             0 < i \<and> t ! (i - 1) = IsRebooting (Inr True)
             \<and> (Suc i < length t \<longrightarrow> t ! Suc i = Init)"
    using accepted_before_Disconnect [OF ph] accepted_after_Disconnect [OF ph] by blast
  have c: "\<forall>i<length t. \<forall>r. t ! i = IsRebooting r \<longrightarrow>
             0 < i \<and> (t ! (i - 1) = Init \<or> t ! (i - 1) = Sleep 1)"
    using accepted_before_IsRebooting [OF ph] by blast
  have d: "snd (job_loop n E s) = Running \<longrightarrow> n \<le> length t"
    unfolding t using job_loop_length [of n E s] by simp
  have e: "prefix t (fst (job_loop (Suc n) E s))"
    unfolding t by (rule job_loop_prefix)
  have f: "snd (job_loop n E s) \<noteq> Returned ()"
    by (rule job_loop_never_returns)
  have g: "\<forall>i<length t. t ! i = Disconnect \<and> snd (job_loop n E s) = Running \<longrightarrow>
             Suc i < length t \<and> t ! Suc i = Init"
  proof (intro allI impI)
    fix i
    assume i: "i < length t" and h: "t ! i = Disconnect \<and> snd (job_loop n E s) = Running"
    have "Suc i < length t"
    proof (rule ccontr)
      assume "\<not> Suc i < length t"
      with i have l: "i = length t - 1" and ne: "t \<noteq> []" by auto
      then have "last t = Disconnect" using h by (simp add: last_conv_nth)
      with ne job_loop_last_Disconnect [of n E s] obtain x where
        "snd (job_loop n E s) = Raised x" unfolding t by blast
      with h show False by simp
    qed
    with b i h show "Suc i < length t \<and> t ! Suc i = Init" by blast
  qed
  have k: "snd (job_loop n E s) = Running \<longrightarrow>
             length t < length (fst (job_loop (Suc n) E s))"
    unfolding t using job_loop_grows [of n E s] by simp
  have m: "\<forall>s1 s2 s3. init E s = Inr s1 \<and> snd (poll_reboot n E s1) = Returned s2
             \<and> disconnect E s2 = Inr s3 \<longrightarrow>
             job_loop (Suc n) E s =
               (Init # fst (poll_reboot n E s1) @ Disconnect # fst (job_loop n E s3),
                snd (job_loop n E s3))
             \<and> fst (job_loop n E s3) \<noteq> [] \<and> hd (fst (job_loop n E s3)) = Init"
  proof (intro allI impI)
    fix s1 s2 s3
    assume h: "init E s = Inr s1 \<and> snd (poll_reboot n E s1) = Returned s2
             \<and> disconnect E s2 = Inr s3"
    then obtain j where n: "n = Suc j" by (cases n) simp_all
    from h have "job_loop (Suc n) E s =
               (Init # fst (poll_reboot n E s1) @ Disconnect # fst (job_loop n E s3),
                snd (job_loop n E s3))"
      by (intro job_loop_again) blast+
    moreover have "fst (job_loop n E s3) \<noteq> [] \<and> hd (fst (job_loop n E s3)) = Init"
      unfolding n by (rule job_loop_hd)
    ultimately show "job_loop (Suc n) E s =
               (Init # fst (poll_reboot n E s1) @ Disconnect # fst (job_loop n E s3),
                snd (job_loop n E s3))
             \<and> fst (job_loop n E s3) \<noteq> [] \<and> hd (fst (job_loop n E s3)) = Init"
      by blast
  qed
  from a ph b c d e f g k m show ?thesis by blast
qed

theorem job_loop_cycle_order_witness:
  "(6::nat) < length (fst (job_loop 4 (demo_env True [] True None) 0))
   \<and> fst (job_loop 4 (demo_env True [] True None) 0) ! 6 = Disconnect
   \<and> fst (job_loop 4 (demo_env True [] True None) 0) ! 5 = IsRebooting (Inr True)
   \<and> fst (job_loop 4 (demo_env True [] True None) 0) ! 7 = Init
   \<and> fst (job_loop 4 (demo_env True [] True None) 0) ! 8 = IsRebooting (Inr False)
   \<and> hd (fst (job_loop 4 (demo_env True [] True None) 0)) = Init
   \<and> snd (job_loop 4 (demo_env True [] True None) 0) = Running
   \<and> (4::nat) \<le> length (fst (job_loop 4 (demo_env True [] True None) 0))
   \<and> length (fst (job_loop 4 (demo_env True [] True None) 0))
       < length (fst (job_loop 5 (demo_env True [] True None) 0))
   \<and> init (demo_env True [] True None) 0 = Inr 0
   \<and> snd (poll_reboot 4 (demo_env True [] True None) 0) = Returned 3
   \<and> disconnect (demo_env True [] True None) 3 = Inr 3
   \<and> hd (fst (job_loop 4 (demo_env True [] True None) 3)) = Init"
proof -
  have run: "job_loop 4 (demo_env True [] True None) 0 =
    ([Init, IsRebooting (Inr False), Sleep 1, IsRebooting (Inr False), Sleep 1,
      IsRebooting (Inr True), Disconnect, Init, IsRebooting (Inr False), Sleep 1,
      IsRebooting (Inr False), Sleep 1], Running)"
    by code_simp
  have h: "init (demo_env True [] True None) 0 = Inr 0
     \<and> snd (poll_reboot 4 (demo_env True [] True None) 0) = Returned 3
     \<and> disconnect (demo_env True [] True None) 3 = Inr 3"
    by code_simp
  have five: "Suc 4 = 5" by simp
  from job_loop_cycle_order [OF refl, of 4 "demo_env True [] True None" 0] h
  have "hd (fst (job_loop 4 (demo_env True [] True None) 3)) = Init"
    by blast
  moreover from job_loop_cycle_order [OF refl, of 4 "demo_env True [] True None" 0]
  have "length (fst (job_loop 4 (demo_env True [] True None) 0))
       < length (fst (job_loop 5 (demo_env True [] True None) 0))"
    unfolding five by (simp add: run del: job_loop.simps)
  moreover have "(6::nat) < length (fst (job_loop 4 (demo_env True [] True None) 0))
   \<and> fst (job_loop 4 (demo_env True [] True None) 0) ! 6 = Disconnect
   \<and> fst (job_loop 4 (demo_env True [] True None) 0) ! 5 = IsRebooting (Inr True)
   \<and> fst (job_loop 4 (demo_env True [] True None) 0) ! 7 = Init
   \<and> fst (job_loop 4 (demo_env True [] True None) 0) ! 8 = IsRebooting (Inr False)
   \<and> hd (fst (job_loop 4 (demo_env True [] True None) 0)) = Init
   \<and> snd (job_loop 4 (demo_env True [] True None) 0) = Running
   \<and> (4::nat) \<le> length (fst (job_loop 4 (demo_env True [] True None) 0))"
    using job_loop_cycle_order [OF refl, of 4 "demo_env True [] True None" 0]
    by (simp add: run)
  ultimately show ?thesis using h by blast
qed

section \<open>No provisioning call once provisioned\<close>

lemma run_jobagent_eq:
  "run_jobagent fuel E p =
     (New_DeviceJobAgent (new_jobagent_args (cfg E) p)
        # fst (job_loop fuel E (new_jobagent E (new_jobagent_args (cfg E) p))),
      snd (job_loop fuel E (new_jobagent E (new_jobagent_args (cfg E) p))), p)"
  by (simp add: run_jobagent_def Let_def case_prod_beta)

lemma agent_events_no_provisioning:
  "ev \<in> agent_events \<Longrightarrow> \<not> is_provisioning_call ev"
  by (auto simp: agent_events_def is_provisioning_call_def)

lemma job_loop_no_provisioning:
  "ev \<in> set (fst (job_loop n E s)) \<Longrightarrow> \<not> is_provisioning_call ev"
  using job_loop_events [of n E s] agent_events_no_provisioning by blast

lemma run_jobagent_no_provisioning:
  "ev \<in> set (fst (run_jobagent fuel E p)) \<Longrightarrow> \<not> is_provisioning_call ev"
  unfolding run_jobagent_eq using job_loop_no_provisioning [of ev fuel E]
  by (auto simp: is_provisioning_call_def)

lemma already_provisioned_index_error:
  "discover_identity (listdir E (config.actua_cert_path (cfg E))) (p\<lparr>isFirst := False\<rparr>)
     = (Some e, p1) \<Longrightarrow>
   already_provisioned fuel E p = ([Print directory_not_empty_msg], Raised e, p1)"
  by (simp add: already_provisioned_def)

lemma already_provisioned_probe_raise:
  "discover_identity (listdir E (config.actua_cert_path (cfg E))) (p\<lparr>isFirst := False\<rparr>)
     = (None, p2) \<Longrightarrow>
   test_restricted_topic E ''test message'' p2 = (Some e, p3) \<Longrightarrow>
   already_provisioned fuel E p =
     ([Print directory_not_empty_msg, Test_restricted_topic ''test message''], Raised e, p3)"
  by (simp add: already_provisioned_def)

lemma already_provisioned_run:
  "discover_identity (listdir E (config.actua_cert_path (cfg E))) (p\<lparr>isFirst := False\<rparr>)
     = (None, p2) \<Longrightarrow>
   test_restricted_topic E ''test message'' p2 = (None, p3) \<Longrightarrow>
   already_provisioned fuel E p =
     (Print directory_not_empty_msg # Test_restricted_topic ''test message''
        # Print ''Starting sensor'' # sensor_simulator
        @ Print ''Starting job agent to listen for jobs'' # fst (run_jobagent fuel E p3),
      snd (job_loop fuel E (new_jobagent E (new_jobagent_args (cfg E) p3))), p3)"
  by (simp add: already_provisioned_def run_jobagent_eq)

lemma already_provisioned_cases:
  obtains (index_error) e p1 where
      "discover_identity (listdir E (config.actua_cert_path (cfg E))) (p\<lparr>isFirst := False\<rparr>)
         = (Some e, p1)"
  | (probe_raise) p2 e p3 where
      "discover_identity (listdir E (config.actua_cert_path (cfg E))) (p\<lparr>isFirst := False\<rparr>)
         = (None, p2)"
      "test_restricted_topic E ''test message'' p2 = (Some e, p3)"
  | (run) p2 p3 where
      "discover_identity (listdir E (config.actua_cert_path (cfg E))) (p\<lparr>isFirst := False\<rparr>)
         = (None, p2)"
      "test_restricted_topic E ''test message'' p2 = (None, p3)"
proof (cases "discover_identity (listdir E (config.actua_cert_path (cfg E))) (p\<lparr>isFirst := False\<rparr>)")
  case (Pair r p2)
  show ?thesis
  proof (cases r)
    case None
    obtain r' p3 where t: "test_restricted_topic E ''test message'' p2 = (r', p3)"
      by (cases "test_restricted_topic E ''test message'' p2")
    show ?thesis
    proof (cases r')
      case None
      with t Pair \<open>r = None\<close> show ?thesis by (intro run) simp_all
    next
      case (Some e)
      with t Pair \<open>r = None\<close> show ?thesis by (intro probe_raise) simp_all
    qed
  next
    case (Some e)
    with Pair show ?thesis by (intro index_error) simp
  qed
qed

lemma already_provisioned_no_provisioning:
  assumes "ev \<in> set (fst (already_provisioned fuel E p))"
  shows "\<not> is_provisioning_call ev"
proof (cases rule: already_provisioned_cases [where E=E and p=p])
  case (index_error e p1)
  with assms show ?thesis
    by (simp add: already_provisioned_index_error is_provisioning_call_def)
next
  case (probe_raise p2 e p3)
  with assms show ?thesis
    by (auto simp: already_provisioned_probe_raise is_provisioning_call_def)
next
  case (run p2 p3)
  with assms run_jobagent_no_provisioning [of ev fuel E p3] show ?thesis
    by (auto simp: already_provisioned_run sensor_simulator_def is_provisioning_call_def)
qed

lemma check_real_cert_nonempty:
  "path_exists E (config.actua_cert_path (cfg E)) \<Longrightarrow>
   path_isdir E (config.actua_cert_path (cfg E)) \<Longrightarrow>
   listdir E (config.actua_cert_path (cfg E)) \<noteq> [] \<Longrightarrow>
   check_real_cert fuel E p = already_provisioned fuel E p"
  by (simp add: check_real_cert_def)

lemma check_real_cert_empty:
  "path_exists E (config.actua_cert_path (cfg E)) \<Longrightarrow>
   path_isdir E (config.actua_cert_path (cfg E)) \<Longrightarrow>
   listdir E (config.actua_cert_path (cfg E)) = [] \<Longrightarrow>
   check_real_cert fuel E p = first_boot fuel E p"
  by (simp add: check_real_cert_def)

lemma check_real_cert_absent:
  "\<not> (path_exists E (config.actua_cert_path (cfg E)) \<and>
      path_isdir E (config.actua_cert_path (cfg E))) \<Longrightarrow>
   check_real_cert fuel E p = ([Print ''Given directory doesn't exist''], Returned (), p)"
  by (auto simp: check_real_cert_def Let_def)

text \<open>
  C3. When the production-certificate directory exists and has entries,
  \<open>check_real_cert\<close> never calls \<open>get_official_certs\<close>, with or without
  \<open>isRotation\<close>, however long it runs.
\<close>

theorem check_real_cert_provisioned_no_provisioning_call:
  assumes "path_exists E (config.actua_cert_path (cfg E))"
    and "path_isdir E (config.actua_cert_path (cfg E))"
    and "listdir E (config.actua_cert_path (cfg E)) \<noteq> []"
  shows "Get_official_certs kw \<notin> set (fst (check_real_cert fuel E p))"
proof
  assume "Get_official_certs kw \<in> set (fst (check_real_cert fuel E p))"
  then have "Get_official_certs kw \<in> set (fst (already_provisioned fuel E p))"
    using check_real_cert_nonempty [OF assms] by simp
  from already_provisioned_no_provisioning [OF this] show False
    by (simp add: is_provisioning_call_def)
qed

theorem check_real_cert_provisioned_no_provisioning_call_witness:
  "path_exists (demo_env True [''42.crt'', ''42.key''] True None)
     (config.actua_cert_path (cfg (demo_env True [''42.crt'', ''42.key''] True None)))
   \<and> path_isdir (demo_env True [''42.crt'', ''42.key''] True None)
     (config.actua_cert_path (cfg (demo_env True [''42.crt'', ''42.key''] True None)))
   \<and> listdir (demo_env True [''42.crt'', ''42.key''] True None)
     (config.actua_cert_path (cfg (demo_env True [''42.crt'', ''42.key''] True None))) \<noteq> []
   \<and> Get_official_certs None \<notin>
       set (fst (check_real_cert 4 (demo_env True [''42.crt'', ''42.key''] True None)
                  demo_provisioner))"
proof -
  have a: "path_exists (demo_env True [''42.crt'', ''42.key''] True None)
     (config.actua_cert_path (cfg (demo_env True [''42.crt'', ''42.key''] True None)))"
    by (simp add: demo_env_def demo_config_def)
  have b: "path_isdir (demo_env True [''42.crt'', ''42.key''] True None)
     (config.actua_cert_path (cfg (demo_env True [''42.crt'', ''42.key''] True None)))"
    by (simp add: demo_env_def demo_config_def)
  have c: "listdir (demo_env True [''42.crt'', ''42.key''] True None)
     (config.actua_cert_path (cfg (demo_env True [''42.crt'', ''42.key''] True None))) \<noteq> []"
    by (simp add: demo_env_def demo_config_def)
  from check_real_cert_provisioned_no_provisioning_call [OF a b c] a b c
  show ?thesis by blast
qed

section \<open>The bootstrap certificate guards the provisioning call\<close>

lemma run_provisioning_cannot_open:
  "py_open E (bootstrap_path E) = Some IOError \<Longrightarrow>
   run_provisioning E False p =
     ([Open_file (bootstrap_path E), Print bootstrap_missing_msg], Returned (), p)"
  by (simp add: run_provisioning_def bootstrap_path_def)

lemma run_provisioning_open_raises:
  "py_open E (bootstrap_path E) = Some e \<Longrightarrow> e \<noteq> IOError \<Longrightarrow>
   run_provisioning E False p = ([Open_file (bootstrap_path E)], Raised e, p)"
  by (cases e) (simp_all add: run_provisioning_def bootstrap_path_def)

lemma run_provisioning_returns:
  "can_open E (bootstrap_path E) \<Longrightarrow> get_official_certs E None p = (None, p') \<Longrightarrow>
   run_provisioning E False p =
     ([Open_file (bootstrap_path E), Get_official_certs None], Returned (), p')"
  by (simp add: run_provisioning_def bootstrap_path_def can_open_def)

lemma run_provisioning_caught:
  "can_open E (bootstrap_path E) \<Longrightarrow> get_official_certs E None p = (Some IOError, p') \<Longrightarrow>
   run_provisioning E False p =
     ([Open_file (bootstrap_path E), Get_official_certs None, Print bootstrap_missing_msg],
      Returned (), p')"
  by (simp add: run_provisioning_def bootstrap_path_def can_open_def)

lemma run_provisioning_propagates:
  "can_open E (bootstrap_path E) \<Longrightarrow> get_official_certs E None p = (Some e, p') \<Longrightarrow>
   e \<noteq> IOError \<Longrightarrow>
   run_provisioning E False p =
     ([Open_file (bootstrap_path E), Get_official_certs None], Raised e, p')"
  by (cases e) (simp_all add: run_provisioning_def bootstrap_path_def can_open_def)

lemma run_provisioning_cases:
  obtains (cannot_open) "py_open E (bootstrap_path E) = Some IOError"
  | (open_raises) e where "py_open E (bootstrap_path E) = Some e" "e \<noteq> IOError"
  | (returns) p' where "can_open E (bootstrap_path E)" "get_official_certs E None p = (None, p')"
  | (caught) p' where "can_open E (bootstrap_path E)"
      "get_official_certs E None p = (Some IOError, p')"
  | (propagates) e p' where "can_open E (bootstrap_path E)"
      "get_official_certs E None p = (Some e, p')" "e \<noteq> IOError"
proof (cases "py_open E (bootstrap_path E)")
  case (Some e)
  show ?thesis
  proof (cases "e = IOError")
    case True
    with Some show ?thesis by (intro cannot_open) simp
  next
    case False
    with Some show ?thesis by (intro open_raises) simp_all
  qed
next
  case None
  then have o: "can_open E (bootstrap_path E)" by (simp add: can_open_def)
  obtain r p' where g: "get_official_certs E None p = (r, p')"
    by (cases "get_official_certs E None p")
  show ?thesis
  proof (cases r)
    case None
    with o g show ?thesis by (intro returns) simp_all
  next
    case (Some e)
    show ?thesis
    proof (cases "e = IOError")
      case True
      with o g Some show ?thesis by (intro caught) simp_all
    next
      case False
      with o g Some show ?thesis by (intro propagates) simp_all
    qed
  qed
qed

text \<open>
  C5. Without rotation, \<open>run_provisioning\<close> calls \<open>get_official_certs\<close> exactly when
  \<open>open\<close> returns the bootstrap certificate, and then right after opening it,
  without the keyword \<open>isRotation\<close>. When \<open>open\<close> raises \<open>IOError\<close>, it makes no
  provisioning call, prints the message, returns normally and leaves the handler as it
  was. Any other exception of \<open>open\<close> leaves \<open>run_provisioning\<close>, after no
  provisioning call and no message.
\<close>

theorem run_provisioning_bootstrap_guard:
  "((\<exists>ev \<in> set (fst (run_provisioning E False p)). is_provisioning_call ev)
      \<longleftrightarrow> py_open E (bootstrap_path E) = None)
   \<and> (py_open E (bootstrap_path E) = None \<longrightarrow>
        take 2 (fst (run_provisioning E False p))
          = [Open_file (bootstrap_path E), Get_official_certs None])
   \<and> (py_open E (bootstrap_path E) = Some IOError \<longrightarrow>
        run_provisioning E False p
          = ([Open_file (bootstrap_path E), Print bootstrap_missing_msg], Returned (), p))
   \<and> (\<forall>e. py_open E (bootstrap_path E) = Some e \<and> e \<noteq> IOError \<longrightarrow>
        run_provisioning E False p = ([Open_file (bootstrap_path E)], Raised e, p))"
proof (cases rule: run_provisioning_cases [where E=E and p=p])
  case cannot_open
  then show ?thesis
    by (simp add: run_provisioning_cannot_open is_provisioning_call_def)
next
  case (open_raises e)
  then show ?thesis
    by (simp add: run_provisioning_open_raises is_provisioning_call_def)
next
  case (returns p')
  then show ?thesis
    by (simp add: run_provisioning_returns is_provisioning_call_def can_open_def)
next
  case (caught p')
  then show ?thesis
    by (simp add: run_provisioning_caught is_provisioning_call_def can_open_def)
next
  case (propagates e p')
  then show ?thesis
    by (simp add: run_provisioning_propagates is_provisioning_call_def can_open_def)
qed

theorem run_provisioning_bootstrap_guard_witness:
  "py_open (demo_env True [] False None) (bootstrap_path (demo_env True [] False None))
     = Some IOError
   \<and> run_provisioning (demo_env True [] False None) False demo_provisioner
       = ([Open_file ''certs/claim.crt'', Print bootstrap_missing_msg], Returned (),
          demo_provisioner)
   \<and> py_open (demo_env True [] True None) (bootstrap_path (demo_env True [] True None))
       = None
   \<and> take 2 (fst (run_provisioning (demo_env True [] True None) False demo_provisioner))
       = [Open_file ''certs/claim.crt'', Get_official_certs None]
   \<and> py_open ((demo_env True [] True None)
                \<lparr>py_open := \<lambda>path. Some (OtherError ''embedded null byte'')\<rparr>)
        (bootstrap_path ((demo_env True [] True None)
                \<lparr>py_open := \<lambda>path. Some (OtherError ''embedded null byte'')\<rparr>))
       = Some (OtherError ''embedded null byte'')
   \<and> OtherError ''embedded null byte'' \<noteq> IOError
   \<and> run_provisioning ((demo_env True [] True None)
                \<lparr>py_open := \<lambda>path. Some (OtherError ''embedded null byte'')\<rparr>)
        False demo_provisioner
       = ([Open_file ''certs/claim.crt''], Raised (OtherError ''embedded null byte''),
          demo_provisioner)"
proof -
  have a: "py_open (demo_env True [] False None) (bootstrap_path (demo_env True [] False None))
     = Some IOError"
    by (simp add: demo_env_def)
  have b: "py_open (demo_env True [] True None) (bootstrap_path (demo_env True [] True None))
     = None"
    by (simp add: demo_env_def)
  have c: "py_open ((demo_env True [] True None)
                \<lparr>py_open := \<lambda>path. Some (OtherError ''embedded null byte'')\<rparr>)
        (bootstrap_path ((demo_env True [] True None)
                \<lparr>py_open := \<lambda>path. Some (OtherError ''embedded null byte'')\<rparr>))
       = Some (OtherError ''embedded null byte'')"
    "OtherError ''embedded null byte'' \<noteq> IOError"
    by simp_all
  have d: "bootstrap_path (demo_env True [] False None) = ''certs/claim.crt''"
    "bootstrap_path (demo_env True [] True None) = ''certs/claim.crt''"
    "bootstrap_path ((demo_env True [] True None)
                \<lparr>py_open := \<lambda>path. Some (OtherError ''embedded null byte'')\<rparr>)
       = ''certs/claim.crt''"
    by (simp_all add: bootstrap_path_def demo_env_def demo_config_def slash_def)
  show ?thesis
    using run_provisioning_bootstrap_guard [of "demo_env True [] False None" demo_provisioner]
      run_provisioning_bootstrap_guard [of "demo_env True [] True None" demo_provisioner]
      run_provisioning_bootstrap_guard
        [of "(demo_env True [] True None)
                \<lparr>py_open := \<lambda>path. Some (OtherError ''embedded null byte'')\<rparr>"
            demo_provisioner]
      a b c
    unfolding d by blast
qed

section \<open>First boot\<close>

lemma first_boot_returned:
  "run_provisioning E False p = (evs, Returned u, p1) \<Longrightarrow>
   first_boot fuel E p =
     (Print ''Actual cert Directory is empty'' # evs
        @ Print ''Starting sensor'' # sensor_simulator
        @ Print ''Provisioning complete. Starting job agent to listen for jobs''
        # fst (run_jobagent fuel E p1),
      snd (job_loop fuel E (new_jobagent E (new_jobagent_args (cfg E) p1))), p1)"
  by (simp add: first_boot_def run_jobagent_eq)

lemma first_boot_raised:
  "run_provisioning E False p = (evs, Raised e, p1) \<Longrightarrow>
   first_boot fuel E p = (Print ''Actual cert Directory is empty'' # evs, Raised e, p1)"
  by (simp add: first_boot_def)

lemma job_loop_no_construction:
  "New_DeviceJobAgent a \<notin> set (fst (job_loop n E s))"
  using job_loop_events [of n E s] by (auto simp: agent_events_def)

lemma first_boot_provisioning_calls:
  assumes "Get_official_certs kw \<in> set (fst (first_boot fuel E p))"
  shows "kw = None"
proof -
  have j: "\<And>p1. Get_official_certs kw \<notin> set (fst (run_jobagent fuel E p1))"
    using run_jobagent_no_provisioning [of "Get_official_certs kw" fuel E]
    by (auto simp: is_provisioning_call_def)
  show ?thesis
  proof (cases rule: run_provisioning_cases [where E=E and p=p])
    case cannot_open
    from first_boot_returned [OF run_provisioning_cannot_open [OF this], of fuel] assms j
    show ?thesis by (simp add: sensor_simulator_def)
  next
    case (open_raises e)
    from first_boot_raised [OF run_provisioning_open_raises [OF this], of fuel] assms
    show ?thesis by simp
  next
    case (returns p')
    from first_boot_returned [OF run_provisioning_returns [OF this], of fuel] assms j
    show ?thesis by (simp add: sensor_simulator_def)
  next
    case (caught p')
    from first_boot_returned [OF run_provisioning_caught [OF this], of fuel] assms j
    show ?thesis by (simp add: sensor_simulator_def)
  next
    case (propagates e p')
    from first_boot_raised [OF run_provisioning_propagates [OF this], of fuel] assms
    show ?thesis by simp
  qed
qed

lemma first_boot_starts:
  assumes "can_open E (bootstrap_path E)"
  shows "take 3 (fst (first_boot fuel E p)) =
           [Print ''Actual cert Directory is empty'', Open_file (bootstrap_path E),
            Get_official_certs None]"
proof (cases rule: run_provisioning_cases [where E=E and p=p])
  case cannot_open
  with assms show ?thesis by (simp add: can_open_def)
next
  case (open_raises e)
  with assms show ?thesis by (simp add: can_open_def)
next
  case (returns p')
  from first_boot_returned [OF run_provisioning_returns [OF this], of fuel]
  show ?thesis by simp
next
  case (caught p')
  from first_boot_returned [OF run_provisioning_caught [OF this], of fuel]
  show ?thesis by simp
next
  case (propagates e p')
  from first_boot_raised [OF run_provisioning_propagates [OF this], of fuel]
  show ?thesis by simp
qed

text \<open>
  C1, as the script has it. When the production-certificate directory exists, is
  empty and the bootstrap certificate can be opened, \<open>check_real_cert\<close> prints, opens
  the bootstrap certificate and calls \<open>get_official_certs\<close>; no call it makes passes
  \<open>isRotation\<close>, so with the default False no call is a rotation. When the path does
  not exist or is not a directory, it prints that and returns without any call.
\<close>

theorem check_real_cert_first_boot_provisions:
  "(path_exists E (config.actua_cert_path (cfg E))
      \<and> path_isdir E (config.actua_cert_path (cfg E))
      \<and> listdir E (config.actua_cert_path (cfg E)) = []
      \<and> can_open E (bootstrap_path E) \<longrightarrow>
        take 3 (fst (check_real_cert fuel E p)) =
          [Print ''Actual cert Directory is empty'', Open_file (bootstrap_path E),
           Get_official_certs None]
        \<and> (\<forall>kw. Get_official_certs kw \<in> set (fst (check_real_cert fuel E p)) \<longrightarrow>
              kw = None \<and> effective_isRotation False kw = False))
   \<and> (\<not> (path_exists E (config.actua_cert_path (cfg E))
          \<and> path_isdir E (config.actua_cert_path (cfg E))) \<longrightarrow>
        check_real_cert fuel E p =
          ([Print ''Given directory doesn't exist''], Returned (), p))"
proof (intro conjI impI)
  assume a: "path_exists E (config.actua_cert_path (cfg E))
      \<and> path_isdir E (config.actua_cert_path (cfg E))
      \<and> listdir E (config.actua_cert_path (cfg E)) = []
      \<and> can_open E (bootstrap_path E)"
  then have eq: "check_real_cert fuel E p = first_boot fuel E p"
    by (simp add: check_real_cert_empty)
  show "take 3 (fst (check_real_cert fuel E p)) =
          [Print ''Actual cert Directory is empty'', Open_file (bootstrap_path E),
           Get_official_certs None]"
    unfolding eq using a by (intro first_boot_starts) simp
  show "\<forall>kw. Get_official_certs kw \<in> set (fst (check_real_cert fuel E p)) \<longrightarrow>
              kw = None \<and> effective_isRotation False kw = False"
  proof (intro allI impI)
    fix kw
    assume "Get_official_certs kw \<in> set (fst (check_real_cert fuel E p))"
    then have "kw = None" unfolding eq by (rule first_boot_provisioning_calls)
    then show "kw = None \<and> effective_isRotation False kw = False"
      by (simp add: effective_isRotation_def)
  qed
next
  assume "\<not> (path_exists E (config.actua_cert_path (cfg E))
          \<and> path_isdir E (config.actua_cert_path (cfg E)))"
  then show "check_real_cert fuel E p =
          ([Print ''Given directory doesn't exist''], Returned (), p)"
    by (rule check_real_cert_absent)
qed

theorem check_real_cert_first_boot_provisions_witness:
  "path_exists (demo_env True [] True None)
     (config.actua_cert_path (cfg (demo_env True [] True None)))
   \<and> path_isdir (demo_env True [] True None)
     (config.actua_cert_path (cfg (demo_env True [] True None)))
   \<and> listdir (demo_env True [] True None)
     (config.actua_cert_path (cfg (demo_env True [] True None))) = []
   \<and> can_open (demo_env True [] True None) (bootstrap_path (demo_env True [] True None))
   \<and> take 3 (fst (check_real_cert 4 (demo_env True [] True None) demo_provisioner)) =
       [Print ''Actual cert Directory is empty'', Open_file ''certs/claim.crt'',
        Get_official_certs None]
   \<and> \<not> (path_exists (demo_env False [] True None)
           (config.actua_cert_path (cfg (demo_env False [] True None)))
        \<and> path_isdir (demo_env False [] True None)
           (config.actua_cert_path (cfg (demo_env False [] True None))))
   \<and> check_real_cert 4 (demo_env False [] True None) demo_provisioner =
       ([Print ''Given directory doesn't exist''], Returned (), demo_provisioner)"
proof -
  have a: "path_exists (demo_env True [] True None)
     (config.actua_cert_path (cfg (demo_env True [] True None)))
   \<and> path_isdir (demo_env True [] True None)
     (config.actua_cert_path (cfg (demo_env True [] True None)))
   \<and> listdir (demo_env True [] True None)
     (config.actua_cert_path (cfg (demo_env True [] True None))) = []
   \<and> can_open (demo_env True [] True None) (bootstrap_path (demo_env True [] True None))"
    by (simp add: demo_env_def demo_config_def can_open_def)
  have b: "\<not> (path_exists (demo_env False [] True None)
           (config.actua_cert_path (cfg (demo_env False [] True None)))
        \<and> path_isdir (demo_env False [] True None)
           (config.actua_cert_path (cfg (demo_env False [] True None))))"
    by (simp add: demo_env_def demo_config_def)
  have c: "bootstrap_path (demo_env True [] True None) = ''certs/claim.crt''"
    by (simp add: bootstrap_path_def demo_env_def demo_config_def slash_def)
  show ?thesis
    using check_real_cert_first_boot_provisions
            [of "demo_env True [] True None" 4 demo_provisioner]
      check_real_cert_first_boot_provisions
            [of "demo_env False [] True None" 4 demo_provisioner]
      a b
    unfolding c by blast
qed

text \<open>
  The claim C1 as it is written fails twice: with the directory absent the script
  only prints and returns, and with the directory empty but no bootstrap certificate
  to open it goes on to the job agent; neither run calls \<open>get_official_certs\<close>.
\<close>

theorem check_real_cert_no_provisioning_counterexample:
  "check_real_cert 4 (demo_env False [] True None) demo_provisioner =
     ([Print ''Given directory doesn't exist''], Returned (), demo_provisioner)
   \<and> filter is_provisioning_call
        (fst (check_real_cert 4 (demo_env True [] False None) demo_provisioner)) = []"
  by code_simp

text \<open>
  C2, as the script has it. On first boot, when the bootstrap certificate can be opened
  and \<open>get_official_certs\<close> returns, the call is made and has returned before the job
  agent is constructed, the job agent is constructed once, and its arguments are read
  from the handler as the call left it: thing name \<open>thing_prefix + unique_id\<close>,
  certificate and key under the handler's \<open>actua_cert_path\<close>, root CA under its
  \<open>secure_cert_path\<close>.
\<close>

theorem first_boot_jobagent_after_provisioning:
  assumes "path_exists E (config.actua_cert_path (cfg E))"
    and "path_isdir E (config.actua_cert_path (cfg E))"
    and "listdir E (config.actua_cert_path (cfg E)) = []"
    and "can_open E (bootstrap_path E)"
    and "get_official_certs E None p = (None, p')"
  shows "fst (check_real_cert fuel E p) =
      [Print ''Actual cert Directory is empty'',
       Open_file (bootstrap_path E),
       Get_official_certs None,
       Print ''Starting sensor'', Thread_start, Print ''Sensor thread Started'',
       Print ''Provisioning complete. Starting job agent to listen for jobs'',
       New_DeviceJobAgent
         \<lparr>thing_name = thing_prefix (cfg E) @ unique_id p',
          endpoint = iot_endpoint p',
          cert_file = slash (provisioner.actua_cert_path p') (new_cert_name p'),
          key_file = slash (provisioner.actua_cert_path p') (new_key_name p'),
          root_ca_file = slash (provisioner.secure_cert_path p') (root_cert p')\<rparr>]
      @ fst (job_loop fuel E (new_jobagent E (new_jobagent_args (cfg E) p')))
    \<and> New_DeviceJobAgent a \<notin>
        set (fst (job_loop fuel E (new_jobagent E (new_jobagent_args (cfg E) p'))))"
proof -
  have "check_real_cert fuel E p = first_boot fuel E p"
    using assms(1-3) by (rule check_real_cert_empty)
  moreover note first_boot_returned [OF run_provisioning_returns [OF assms(4,5)], of fuel]
  ultimately show ?thesis
    using job_loop_no_construction [of a fuel E]
    by (simp add: run_jobagent_eq sensor_simulator_def new_jobagent_args_def)
qed

theorem first_boot_jobagent_after_provisioning_witness:
  "path_exists (demo_env True [] True None)
     (config.actua_cert_path (cfg (demo_env True [] True None)))
   \<and> path_isdir (demo_env True [] True None)
     (config.actua_cert_path (cfg (demo_env True [] True None)))
   \<and> listdir (demo_env True [] True None)
     (config.actua_cert_path (cfg (demo_env True [] True None))) = []
   \<and> can_open (demo_env True [] True None) (bootstrap_path (demo_env True [] True None))
   \<and> get_official_certs (demo_env True [] True None) None demo_provisioner
       = (None, demo_provisioned demo_provisioner)
   \<and> fst (check_real_cert 1 (demo_env True [] True None) demo_provisioner) =
       [Print ''Actual cert Directory is empty'',
        Open_file ''certs/claim.crt'',
        Get_official_certs None,
        Print ''Starting sensor'', Thread_start, Print ''Sensor thread Started'',
        Print ''Provisioning complete. Starting job agent to listen for jobs'',
        New_DeviceJobAgent
          \<lparr>thing_name = ''dev42'', endpoint = ''iot'',
           cert_file = ''actualcerts/42.crt'', key_file = ''actualcerts/42.key'',
           root_ca_file = ''certs/root.pem''\<rparr>,
        Init]"
proof -
  have a: "path_exists (demo_env True [] True None)
     (config.actua_cert_path (cfg (demo_env True [] True None)))"
    by (simp add: demo_env_def demo_config_def)
  have b: "path_isdir (demo_env True [] True None)
     (config.actua_cert_path (cfg (demo_env True [] True None)))"
    by (simp add: demo_env_def demo_config_def)
  have c: "listdir (demo_env True [] True None)
     (config.actua_cert_path (cfg (demo_env True [] True None))) = []"
    by (simp add: demo_env_def demo_config_def)
  have d: "can_open (demo_env True [] True None) (bootstrap_path (demo_env True [] True None))"
    by (simp add: demo_env_def can_open_def)
  have e: "get_official_certs (demo_env True [] True None) None demo_provisioner
       = (None, demo_provisioned demo_provisioner)"
    by (simp add: demo_env_def)
  have f: "bootstrap_path (demo_env True [] True None) = ''certs/claim.crt''"
    by (simp add: bootstrap_path_def demo_env_def demo_config_def slash_def)
  have g: "thing_prefix (cfg (demo_env True [] True None)) = ''dev''"
    by (simp add: demo_env_def demo_config_def)
  have h: "fst (job_loop (Suc 0) (demo_env True [] True None) s) = [Init]" for s
    by (simp add: demo_env_def)
  from first_boot_jobagent_after_provisioning [OF a b c d e, of 1] a b c d e
  show ?thesis
    by (simp add: f g h demo_provisioned_def demo_provisioner_def slash_def
          del: job_loop.simps)
qed

text \<open>
  The claim C2 as it is written fails when the bootstrap certificate cannot be opened:
  the job agent is still constructed, no provisioning call has been made, and its
  arguments are the attributes the handler had before (here an empty certificate name).
\<close>

theorem first_boot_without_bootstrap_counterexample:
  "check_real_cert 1 (demo_env True [] False None) demo_provisioner =
     ([Print ''Actual cert Directory is empty'',
       Open_file ''certs/claim.crt'',
       Print bootstrap_missing_msg,
       Print ''Starting sensor'', Thread_start, Print ''Sensor thread Started'',
       Print ''Provisioning complete. Starting job agent to listen for jobs'',
       New_DeviceJobAgent
         \<lparr>thing_name = ''dev0'', endpoint = ''iot'',
          cert_file = ''actualcerts/'', key_file = ''actualcerts/'',
          root_ca_file = ''certs/root.pem''\<rparr>,
       Init],
      Running, demo_provisioner)"
  by code_simp

section \<open>The identity given to the job agent\<close>










section \<open>Discovery of the stored identity\<close>

lemma index0_Nil: "index0 [] = Inl IndexError"
  by (simp add: index0_def)

lemma index0_nonempty: "xs \<noteq> [] \<Longrightarrow> index0 xs = Inr (hd xs)"
  by (cases xs) (simp_all add: index0_def)

lemma discover_identity_no_crt:
  "filter (\<lambda>filename. endswith filename ''.crt'') names = [] \<Longrightarrow>
   discover_identity names p = (Some IndexError, p)"
  by (simp add: discover_identity_def index0_Nil)

lemma discover_identity_no_key:
  "filter (\<lambda>filename. endswith filename ''.crt'') names \<noteq> [] \<Longrightarrow>
   filter (\<lambda>filename. endswith filename ''.key'') names = [] \<Longrightarrow>
   discover_identity names p =
     (Some IndexError,
      p\<lparr>new_cert_name := hd (filter (\<lambda>filename. endswith filename ''.crt'') names)\<rparr>)"
  by (simp add: discover_identity_def index0_Nil index0_nonempty)

lemma discover_identity_found:
  "filter (\<lambda>filename. endswith filename ''.crt'') names \<noteq> [] \<Longrightarrow>
   filter (\<lambda>filename. endswith filename ''.key'') names \<noteq> [] \<Longrightarrow>
   discover_identity names p =
     (None,
      p\<lparr>new_cert_name := hd (filter (\<lambda>filename. endswith filename ''.crt'') names),
        new_key_name := hd (filter (\<lambda>filename. endswith filename ''.key'') names)\<rparr>)"
  by (simp add: discover_identity_def index0_nonempty)

lemma discover_identity_cases:
  obtains (no_crt) "filter (\<lambda>filename. endswith filename ''.crt'') names = []"
  | (no_key) "filter (\<lambda>filename. endswith filename ''.crt'') names \<noteq> []"
      "filter (\<lambda>filename. endswith filename ''.key'') names = []"
  | (found) "filter (\<lambda>filename. endswith filename ''.crt'') names \<noteq> []"
      "filter (\<lambda>filename. endswith filename ''.key'') names \<noteq> []"
  by blast

lemma hd_filter_first:
  assumes "filter P xs \<noteq> []"
  shows "\<exists>pre post. xs = pre @ hd (filter P xs) # post \<and> P (hd (filter P xs))
           \<and> (\<forall>x \<in> set pre. \<not> P x)"
proof -
  from assms obtain y ys where f: "filter P xs = y # ys" by (cases "filter P xs") auto
  then obtain us vs where "xs = us @ y # vs" "\<forall>u \<in> set us. \<not> P u" "P y"
    unfolding filter_eq_Cons_iff by blast
  with f show ?thesis by auto
qed

lemma filter_nonempty_iff: "filter P xs \<noteq> [] \<longleftrightarrow> (\<exists>x \<in> set xs. P x)"
  by (simp add: filter_empty_conv)

lemma discover_identity_ok_iff:
  "fst (discover_identity names p) = None \<longleftrightarrow>
     (\<exists>c \<in> set names. endswith c ''.crt'') \<and> (\<exists>k \<in> set names. endswith k ''.key'')"
proof (cases rule: discover_identity_cases [where names=names])
  case no_crt
  then show ?thesis
    using filter_nonempty_iff [of "\<lambda>filename. endswith filename ''.crt''" names]
    by (simp add: discover_identity_no_crt)
next
  case no_key
  then show ?thesis
    using filter_nonempty_iff [of "\<lambda>filename. endswith filename ''.key''" names]
    by (simp add: discover_identity_no_key)
next
  case found
  then show ?thesis
    using filter_nonempty_iff [of "\<lambda>filename. endswith filename ''.key''" names]
      filter_nonempty_iff [of "\<lambda>filename. endswith filename ''.crt''" names]
    by (simp add: discover_identity_found)
qed

lemma discover_identity_only_IndexError:
  "fst (discover_identity names p) = Some e \<Longrightarrow> e = IndexError"
  by (cases rule: discover_identity_cases [where names=names])
    (simp_all add: discover_identity_no_crt discover_identity_no_key discover_identity_found)

text \<open>
  C9. The two \<open>files[0]\<close> of the second branch are in bounds exactly when the listing
  has an entry ending in \<open>.crt\<close> and an entry ending in \<open>.key\<close>; otherwise the
  discovery raises \<open>IndexError\<close>, and \<open>check_real_cert\<close> on a directory that has
  entries ends with that \<open>IndexError\<close> right after its first message.
\<close>

theorem discover_identity_in_bounds:
  "(fst (discover_identity names p) = None \<longleftrightarrow>
      (\<exists>c \<in> set names. endswith c ''.crt'') \<and> (\<exists>k \<in> set names. endswith k ''.key''))
   \<and> (fst (discover_identity names p) \<noteq> None \<longrightarrow>
        fst (discover_identity names p) = Some IndexError)
   \<and> (path_exists E (config.actua_cert_path (cfg E))
        \<and> path_isdir E (config.actua_cert_path (cfg E))
        \<and> listdir E (config.actua_cert_path (cfg E)) \<noteq> []
        \<and> \<not> ((\<exists>c \<in> set (listdir E (config.actua_cert_path (cfg E))). endswith c ''.crt'')
             \<and> (\<exists>k \<in> set (listdir E (config.actua_cert_path (cfg E))). endswith k ''.key''))
        \<longrightarrow> fst (check_real_cert fuel E q) = [Print directory_not_empty_msg]
          \<and> fst (snd (check_real_cert fuel E q)) = Raised IndexError)"
proof (intro conjI impI)
  show "fst (discover_identity names p) = None \<longleftrightarrow>
      (\<exists>c \<in> set names. endswith c ''.crt'') \<and> (\<exists>k \<in> set names. endswith k ''.key'')"
    by (rule discover_identity_ok_iff)
next
  assume "fst (discover_identity names p) \<noteq> None"
  then obtain e where "fst (discover_identity names p) = Some e" by blast
  then show "fst (discover_identity names p) = Some IndexError"
    using discover_identity_only_IndexError by fastforce
next
  assume a: "path_exists E (config.actua_cert_path (cfg E))
        \<and> path_isdir E (config.actua_cert_path (cfg E))
        \<and> listdir E (config.actua_cert_path (cfg E)) \<noteq> []
        \<and> \<not> ((\<exists>c \<in> set (listdir E (config.actua_cert_path (cfg E))). endswith c ''.crt'')
             \<and> (\<exists>k \<in> set (listdir E (config.actua_cert_path (cfg E))). endswith k ''.key''))"
  then have eq: "check_real_cert fuel E q = already_provisioned fuel E q"
    by (simp add: check_real_cert_nonempty)
  from a have "fst (discover_identity (listdir E (config.actua_cert_path (cfg E)))
                 (q\<lparr>isFirst := False\<rparr>)) \<noteq> None"
    using discover_identity_ok_iff by blast
  then obtain e p1 where d: "discover_identity (listdir E (config.actua_cert_path (cfg E)))
                 (q\<lparr>isFirst := False\<rparr>) = (Some e, p1)"
    by (cases "discover_identity (listdir E (config.actua_cert_path (cfg E)))
                 (q\<lparr>isFirst := False\<rparr>)") auto
  then have e: "e = IndexError"
    using discover_identity_only_IndexError
      [of "listdir E (config.actua_cert_path (cfg E))" "q\<lparr>isFirst := False\<rparr>" e]
    by simp
  from already_provisioned_index_error [OF d, of fuel] e eq
  have r: "check_real_cert fuel E q = ([Print directory_not_empty_msg], Raised IndexError, p1)"
    by simp
  show "fst (check_real_cert fuel E q) = [Print directory_not_empty_msg]"
    by (simp add: r)
  show "fst (snd (check_real_cert fuel E q)) = Raised IndexError"
    by (simp add: r)
qed

theorem discover_identity_in_bounds_witness:
  "path_exists (demo_env True [''readme.txt'', ''old.key''] True None)
     (config.actua_cert_path (cfg (demo_env True [''readme.txt'', ''old.key''] True None)))
   \<and> path_isdir (demo_env True [''readme.txt'', ''old.key''] True None)
     (config.actua_cert_path (cfg (demo_env True [''readme.txt'', ''old.key''] True None)))
   \<and> listdir (demo_env True [''readme.txt'', ''old.key''] True None)
     (config.actua_cert_path (cfg (demo_env True [''readme.txt'', ''old.key''] True None)))
       = [''readme.txt'', ''old.key'']
   \<and> \<not> endswith ''readme.txt'' ''.crt'' \<and> \<not> endswith ''old.key'' ''.crt''
   \<and> fst (discover_identity [''readme.txt'', ''old.key''] demo_provisioner) = Some IndexError
   \<and> fst (check_real_cert 4 (demo_env True [''readme.txt'', ''old.key''] True None)
            demo_provisioner) = [Print directory_not_empty_msg]
   \<and> fst (snd (check_real_cert 4 (demo_env True [''readme.txt'', ''old.key''] True None)
            demo_provisioner)) = Raised IndexError"
proof -
  have a: "path_exists (demo_env True [''readme.txt'', ''old.key''] True None)
     (config.actua_cert_path (cfg (demo_env True [''readme.txt'', ''old.key''] True None)))"
    by (simp add: demo_env_def demo_config_def)
  have b: "path_isdir (demo_env True [''readme.txt'', ''old.key''] True None)
     (config.actua_cert_path (cfg (demo_env True [''readme.txt'', ''old.key''] True None)))"
    by (simp add: demo_env_def demo_config_def)
  have c: "listdir (demo_env True [''readme.txt'', ''old.key''] True None)
     (config.actua_cert_path (cfg (demo_env True [''readme.txt'', ''old.key''] True None)))
       = [''readme.txt'', ''old.key'']"
    by (simp add: demo_env_def demo_config_def)
  have d: "\<not> endswith ''readme.txt'' ''.crt''" "\<not> endswith ''old.key'' ''.crt''"
    by (simp_all add: endswith_def)
  from discover_identity_in_bounds
         [of "[''readme.txt'', ''old.key'']" demo_provisioner
             "demo_env True [''readme.txt'', ''old.key''] True None" 4 demo_provisioner]
    a b c d
  show ?thesis by auto
qed

lemma discover_identity_selects:
  assumes "discover_identity names p = (None, p')"
  shows "filter (\<lambda>filename. endswith filename ''.crt'') names \<noteq> []"
    and "filter (\<lambda>filename. endswith filename ''.key'') names \<noteq> []"
    and "new_cert_name p' = hd (filter (\<lambda>filename. endswith filename ''.crt'') names)"
    and "new_key_name p' = hd (filter (\<lambda>filename. endswith filename ''.key'') names)"
proof -
  have "filter (\<lambda>filename. endswith filename ''.crt'') names \<noteq> []
      \<and> filter (\<lambda>filename. endswith filename ''.key'') names \<noteq> []"
    using assms
    by (cases rule: discover_identity_cases [where names=names])
      (simp_all add: discover_identity_no_crt discover_identity_no_key)
  then show c: "filter (\<lambda>filename. endswith filename ''.crt'') names \<noteq> []"
    and k: "filter (\<lambda>filename. endswith filename ''.key'') names \<noteq> []"
    by simp_all
  from discover_identity_found [OF c k, of p] assms
  show "new_cert_name p' = hd (filter (\<lambda>filename. endswith filename ''.crt'') names)"
    and "new_key_name p' = hd (filter (\<lambda>filename. endswith filename ''.key'') names)"
    by auto
qed

text \<open>
  C7. When the discovery succeeds, the certificate name it stores is the first entry
  of the listing that ends in \<open>.crt\<close> and the key name the first that ends in
  \<open>.key\<close>; both depend on the listing only, not on the handler. The same files
  listed in reverse order give other names, and certificate and key are picked
  independently (\<open>a.crt\<close> together with \<open>b.key\<close>). On the second branch of
  \<open>check_real_cert\<close> these names reach the job agent's constructor when the probe
  returns and leaves the handler alone.
\<close>

theorem discover_identity_first_match:
  "(discover_identity names p = (None, p') \<longrightarrow>
      (\<exists>pre post. names = pre @ new_cert_name p' # post
          \<and> endswith (new_cert_name p') ''.crt'' \<and> (\<forall>x \<in> set pre. \<not> endswith x ''.crt''))
      \<and> (\<exists>pre post. names = pre @ new_key_name p' # post
          \<and> endswith (new_key_name p') ''.key'' \<and> (\<forall>x \<in> set pre. \<not> endswith x ''.key''))
      \<and> (\<forall>q. \<exists>q'. discover_identity names q = (None, q')
            \<and> new_cert_name q' = new_cert_name p' \<and> new_key_name q' = new_key_name p'))
   \<and> new_cert_name (snd (discover_identity [''a.crt'', ''a.key'', ''b.crt'', ''b.key''] p))
       = ''a.crt''
   \<and> new_cert_name (snd (discover_identity (rev [''a.crt'', ''a.key'', ''b.crt'', ''b.key'']) p))
       = ''b.crt''
   \<and> new_key_name (snd (discover_identity [''a.crt'', ''a.key'', ''b.crt'', ''b.key''] p))
       = ''a.key''
   \<and> new_key_name (snd (discover_identity (rev [''a.crt'', ''a.key'', ''b.crt'', ''b.key'']) p))
       = ''b.key''
   \<and> new_cert_name (snd (discover_identity [''a.crt'', ''b.key'', ''a.key'', ''b.crt''] p))
       = ''a.crt''
   \<and> new_key_name (snd (discover_identity [''a.crt'', ''b.key'', ''a.key'', ''b.crt''] p))
       = ''b.key''
   \<and> (path_exists E (config.actua_cert_path (cfg E))
        \<and> path_isdir E (config.actua_cert_path (cfg E))
        \<and> listdir E (config.actua_cert_path (cfg E)) \<noteq> []
        \<and> discover_identity (listdir E (config.actua_cert_path (cfg E)))
             (p\<lparr>isFirst := False\<rparr>) = (None, p')
        \<and> test_restricted_topic E ''test message'' p' = (None, p') \<longrightarrow>
        New_DeviceJobAgent (new_jobagent_args (cfg E) p')
          \<in> set (fst (check_real_cert fuel E p)))"
proof -
  have general: "(\<exists>pre post. names = pre @ new_cert_name p' # post
          \<and> endswith (new_cert_name p') ''.crt'' \<and> (\<forall>x \<in> set pre. \<not> endswith x ''.crt''))
      \<and> (\<exists>pre post. names = pre @ new_key_name p' # post
          \<and> endswith (new_key_name p') ''.key'' \<and> (\<forall>x \<in> set pre. \<not> endswith x ''.key''))
      \<and> (\<forall>q. \<exists>q'. discover_identity names q = (None, q')
            \<and> new_cert_name q' = new_cert_name p' \<and> new_key_name q' = new_key_name p')"
    if d: "discover_identity names p = (None, p')"
  proof -
    note s = discover_identity_selects [OF d]
    have c: "\<exists>pre post. names = pre @ new_cert_name p' # post
          \<and> endswith (new_cert_name p') ''.crt'' \<and> (\<forall>x \<in> set pre. \<not> endswith x ''.crt'')"
      unfolding s(3) using hd_filter_first [OF s(1)] .
    have k: "\<exists>pre post. names = pre @ new_key_name p' # post
          \<and> endswith (new_key_name p') ''.key'' \<and> (\<forall>x \<in> set pre. \<not> endswith x ''.key'')"
      unfolding s(4) using hd_filter_first [OF s(2)] .
    have f: "\<forall>q. \<exists>q'. discover_identity names q = (None, q')
            \<and> new_cert_name q' = new_cert_name p' \<and> new_key_name q' = new_key_name p'"
      using discover_identity_found [OF s(1,2)] s(3,4) by simp
    from c k f show ?thesis by blast
  qed
  have forward: "new_cert_name (snd (discover_identity [''a.crt'', ''a.key'', ''b.crt'', ''b.key''] p))
       = ''a.crt''"
    "new_key_name (snd (discover_identity [''a.crt'', ''a.key'', ''b.crt'', ''b.key''] p))
       = ''a.key''"
    by (simp_all add: discover_identity_def index0_def endswith_def)
  have backward: "new_cert_name (snd (discover_identity (rev [''a.crt'', ''a.key'', ''b.crt'', ''b.key'']) p))
       = ''b.crt''"
    "new_key_name (snd (discover_identity (rev [''a.crt'', ''a.key'', ''b.crt'', ''b.key'']) p))
       = ''b.key''"
    by (simp_all add: discover_identity_def index0_def endswith_def)
  have mixed: "new_cert_name (snd (discover_identity [''a.crt'', ''b.key'', ''a.key'', ''b.crt''] p))
       = ''a.crt''"
    "new_key_name (snd (discover_identity [''a.crt'', ''b.key'', ''a.key'', ''b.crt''] p))
       = ''b.key''"
    by (simp_all add: discover_identity_def index0_def endswith_def)
  have reach: "New_DeviceJobAgent (new_jobagent_args (cfg E) p')
          \<in> set (fst (check_real_cert fuel E p))"
    if a: "path_exists E (config.actua_cert_path (cfg E))
        \<and> path_isdir E (config.actua_cert_path (cfg E))
        \<and> listdir E (config.actua_cert_path (cfg E)) \<noteq> []
        \<and> discover_identity (listdir E (config.actua_cert_path (cfg E)))
             (p\<lparr>isFirst := False\<rparr>) = (None, p')
        \<and> test_restricted_topic E ''test message'' p' = (None, p')"
  proof -
    from a have "check_real_cert fuel E p = already_provisioned fuel E p"
      by (simp add: check_real_cert_nonempty)
    moreover from a have "already_provisioned fuel E p =
     (Print directory_not_empty_msg # Test_restricted_topic ''test message''
        # Print ''Starting sensor'' # sensor_simulator
        @ Print ''Starting job agent to listen for jobs'' # fst (run_jobagent fuel E p'),
      snd (job_loop fuel E (new_jobagent E (new_jobagent_args (cfg E) p'))), p')"
      by (intro already_provisioned_run) blast+
    ultimately show ?thesis by (simp add: run_jobagent_eq)
  qed
  from general forward backward mixed reach show ?thesis by blast
qed

theorem discover_identity_first_match_witness:
  "discover_identity [''x.txt'', ''b.crt'', ''a.key'', ''a.crt''] demo_provisioner
     = (None, demo_provisioner\<lparr>new_cert_name := ''b.crt'', new_key_name := ''a.key''\<rparr>)
   \<and> (\<exists>pre post. [''x.txt'', ''b.crt'', ''a.key'', ''a.crt''] = pre @ ''b.crt'' # post
        \<and> endswith ''b.crt'' ''.crt'' \<and> (\<forall>x \<in> set pre. \<not> endswith x ''.crt''))
   \<and> (\<exists>pre post. [''x.txt'', ''b.crt'', ''a.key'', ''a.crt''] = pre @ ''a.key'' # post
        \<and> endswith ''a.key'' ''.key'' \<and> (\<forall>x \<in> set pre. \<not> endswith x ''.key''))
   \<and> New_DeviceJobAgent
         \<lparr>thing_name = ''dev0'', endpoint = ''iot'',
          cert_file = ''actualcerts/b.crt'', key_file = ''actualcerts/a.key'',
          root_ca_file = ''certs/root.pem''\<rparr>
       \<in> set (fst (check_real_cert 0
             (demo_env True [''x.txt'', ''b.crt'', ''a.key'', ''a.crt''] True None)
             demo_provisioner))"
proof -
  have d: "discover_identity [''x.txt'', ''b.crt'', ''a.key'', ''a.crt''] demo_provisioner
     = (None, demo_provisioner\<lparr>new_cert_name := ''b.crt'', new_key_name := ''a.key''\<rparr>)"
    by (simp add: discover_identity_def index0_def endswith_def)
  note t = discover_identity_first_match
         [of "[''x.txt'', ''b.crt'', ''a.key'', ''a.crt'']" demo_provisioner
             "demo_provisioner\<lparr>new_cert_name := ''b.crt'', new_key_name := ''a.key''\<rparr>"
             "demo_env True [] True None" 0]
  from conjunct1 [OF t] d
  have first: "(\<exists>pre post. [''x.txt'', ''b.crt'', ''a.key'', ''a.crt''] = pre @ ''b.crt'' # post
        \<and> endswith ''b.crt'' ''.crt'' \<and> (\<forall>x \<in> set pre. \<not> endswith x ''.crt''))
   \<and> (\<exists>pre post. [''x.txt'', ''b.crt'', ''a.key'', ''a.crt''] = pre @ ''a.key'' # post
        \<and> endswith ''a.key'' ''.key'' \<and> (\<forall>x \<in> set pre. \<not> endswith x ''.key''))"
    by simp
  have h: "path_exists (demo_env True [''x.txt'', ''b.crt'', ''a.key'', ''a.crt''] True None)
        (config.actua_cert_path
          (cfg (demo_env True [''x.txt'', ''b.crt'', ''a.key'', ''a.crt''] True None)))
      \<and> path_isdir (demo_env True [''x.txt'', ''b.crt'', ''a.key'', ''a.crt''] True None)
        (config.actua_cert_path
          (cfg (demo_env True [''x.txt'', ''b.crt'', ''a.key'', ''a.crt''] True None)))
      \<and> listdir (demo_env True [''x.txt'', ''b.crt'', ''a.key'', ''a.crt''] True None)
        (config.actua_cert_path
          (cfg (demo_env True [''x.txt'', ''b.crt'', ''a.key'', ''a.crt''] True None))) \<noteq> []
      \<and> discover_identity
          (listdir (demo_env True [''x.txt'', ''b.crt'', ''a.key'', ''a.crt''] True None)
            (config.actua_cert_path
              (cfg (demo_env True [''x.txt'', ''b.crt'', ''a.key'', ''a.crt''] True None))))
          (demo_provisioner\<lparr>isFirst := False\<rparr>)
        = (None, demo_provisioner\<lparr>isFirst := False, new_cert_name := ''b.crt'',
                   new_key_name := ''a.key''\<rparr>)
      \<and> test_restricted_topic
          (demo_env True [''x.txt'', ''b.crt'', ''a.key'', ''a.crt''] True None)
          ''test message''
          (demo_provisioner\<lparr>isFirst := False, new_cert_name := ''b.crt'',
                   new_key_name := ''a.key''\<rparr>)
        = (None, demo_provisioner\<lparr>isFirst := False, new_cert_name := ''b.crt'',
                   new_key_name := ''a.key''\<rparr>)"
    by (simp add: demo_env_def demo_config_def discover_identity_def index0_def endswith_def)
  note u = discover_identity_first_match
         [of "[]" demo_provisioner
             "demo_provisioner\<lparr>isFirst := False, new_cert_name := ''b.crt'',
                   new_key_name := ''a.key''\<rparr>"
             "demo_env True [''x.txt'', ''b.crt'', ''a.key'', ''a.crt''] True None" 0]
  from u h
  have "New_DeviceJobAgent
          (new_jobagent_args
            (cfg (demo_env True [''x.txt'', ''b.crt'', ''a.key'', ''a.crt''] True None))
            (demo_provisioner\<lparr>isFirst := False, new_cert_name := ''b.crt'',
                   new_key_name := ''a.key''\<rparr>))
        \<in> set (fst (check_real_cert 0
             (demo_env True [''x.txt'', ''b.crt'', ''a.key'', ''a.crt''] True None)
             demo_provisioner))"
    by blast
  moreover have "new_jobagent_args
            (cfg (demo_env True [''x.txt'', ''b.crt'', ''a.key'', ''a.crt''] True None))
            (demo_provisioner\<lparr>isFirst := False, new_cert_name := ''b.crt'',
                   new_key_name := ''a.key''\<rparr>)
      = \<lparr>thing_name = ''dev0'', endpoint = ''iot'',
          cert_file = ''actualcerts/b.crt'', key_file = ''actualcerts/a.key'',
          root_ca_file = ''certs/root.pem''\<rparr>"
    by (simp add: new_jobagent_args_def demo_env_def demo_config_def demo_provisioner_def
        slash_def)
  ultimately have second: "New_DeviceJobAgent
         \<lparr>thing_name = ''dev0'', endpoint = ''iot'',
          cert_file = ''actualcerts/b.crt'', key_file = ''actualcerts/a.key'',
          root_ca_file = ''certs/root.pem''\<rparr>
       \<in> set (fst (check_real_cert 0
             (demo_env True [''x.txt'', ''b.crt'', ''a.key'', ''a.crt''] True None)
             demo_provisioner))"
    by simp
  from d first second show ?thesis by blast
qed

section \<open>Returning and running forever\<close>

lemma first_boot_shape:
  "(\<exists>evs e p1. first_boot fuel E p = (evs, Raised e, p1))
   \<or> (\<exists>pre p1. first_boot fuel E p =
         (pre @ fst (job_loop fuel E (new_jobagent E (new_jobagent_args (cfg E) p1))),
          snd (job_loop fuel E (new_jobagent E (new_jobagent_args (cfg E) p1))), p1))"
proof (cases rule: run_provisioning_cases [where E=E and p=p])
  case cannot_open
  from first_boot_returned [OF run_provisioning_cannot_open [OF this], of fuel]
  have "first_boot fuel E p =
     (([Print ''Actual cert Directory is empty'', Open_file (bootstrap_path E),
        Print bootstrap_missing_msg, Print ''Starting sensor''] @ sensor_simulator
        @ [Print ''Provisioning complete. Starting job agent to listen for jobs'',
           New_DeviceJobAgent (new_jobagent_args (cfg E) p)])
       @ fst (job_loop fuel E (new_jobagent E (new_jobagent_args (cfg E) p))),
      snd (job_loop fuel E (new_jobagent E (new_jobagent_args (cfg E) p))), p)"
    by (simp add: run_jobagent_eq)
  then show ?thesis by blast
next
  case (returns p')
  from first_boot_returned [OF run_provisioning_returns [OF this], of fuel]
  have "first_boot fuel E p =
     (([Print ''Actual cert Directory is empty'', Open_file (bootstrap_path E),
        Get_official_certs None, Print ''Starting sensor''] @ sensor_simulator
        @ [Print ''Provisioning complete. Starting job agent to listen for jobs'',
           New_DeviceJobAgent (new_jobagent_args (cfg E) p')])
       @ fst (job_loop fuel E (new_jobagent E (new_jobagent_args (cfg E) p'))),
      snd (job_loop fuel E (new_jobagent E (new_jobagent_args (cfg E) p'))), p')"
    by (simp add: run_jobagent_eq)
  then show ?thesis by blast
next
  case (caught p')
  from first_boot_returned [OF run_provisioning_caught [OF this], of fuel]
  have "first_boot fuel E p =
     (([Print ''Actual cert Directory is empty'', Open_file (bootstrap_path E),
        Get_official_certs None, Print bootstrap_missing_msg,
        Print ''Starting sensor''] @ sensor_simulator
        @ [Print ''Provisioning complete. Starting job agent to listen for jobs'',
           New_DeviceJobAgent (new_jobagent_args (cfg E) p')])
       @ fst (job_loop fuel E (new_jobagent E (new_jobagent_args (cfg E) p'))),
      snd (job_loop fuel E (new_jobagent E (new_jobagent_args (cfg E) p'))), p')"
    by (simp add: run_jobagent_eq)
  then show ?thesis by blast
next
  case (propagates e p')
  from first_boot_raised [OF run_provisioning_propagates [OF this], of fuel]
  show ?thesis by blast
next
  case (open_raises e)
  from first_boot_raised [OF run_provisioning_open_raises [OF this], of fuel]
  show ?thesis by blast
qed

lemma already_provisioned_shape:
  "(\<exists>evs e p1. already_provisioned fuel E p = (evs, Raised e, p1))
   \<or> (\<exists>pre p1. already_provisioned fuel E p =
         (pre @ fst (job_loop fuel E (new_jobagent E (new_jobagent_args (cfg E) p1))),
          snd (job_loop fuel E (new_jobagent E (new_jobagent_args (cfg E) p1))), p1))"
proof (cases rule: already_provisioned_cases [where E=E and p=p])
  case (index_error e p1)
  from already_provisioned_index_error [OF this, of fuel] show ?thesis by blast
next
  case (probe_raise p2 e p3)
  from already_provisioned_probe_raise [OF this, of fuel] show ?thesis by blast
next
  case (run p2 p3)
  from already_provisioned_run [OF this, of fuel]
  have "already_provisioned fuel E p =
     (([Print directory_not_empty_msg, Test_restricted_topic ''test message'',
        Print ''Starting sensor''] @ sensor_simulator
        @ [Print ''Starting job agent to listen for jobs'',
           New_DeviceJobAgent (new_jobagent_args (cfg E) p3)])
       @ fst (job_loop fuel E (new_jobagent E (new_jobagent_args (cfg E) p3))),
      snd (job_loop fuel E (new_jobagent E (new_jobagent_args (cfg E) p3))), p3)"
    by (simp add: run_jobagent_eq)
  then show ?thesis by blast
qed

lemma directory_shape:
  assumes "path_exists E (config.actua_cert_path (cfg E))
      \<and> path_isdir E (config.actua_cert_path (cfg E))"
  shows "(\<exists>evs e p1. check_real_cert fuel E p = (evs, Raised e, p1))
   \<or> (\<exists>pre p1. check_real_cert fuel E p =
         (pre @ fst (job_loop fuel E (new_jobagent E (new_jobagent_args (cfg E) p1))),
          snd (job_loop fuel E (new_jobagent E (new_jobagent_args (cfg E) p1))), p1))"
proof (cases "listdir E (config.actua_cert_path (cfg E)) = []")
  case True
  with assms have "check_real_cert fuel E p = first_boot fuel E p"
    by (simp add: check_real_cert_empty)
  then show ?thesis using first_boot_shape [of fuel E p] by simp
next
  case False
  with assms have "check_real_cert fuel E p = already_provisioned fuel E p"
    by (simp add: check_real_cert_nonempty)
  then show ?thesis using already_provisioned_shape [of fuel E p] by simp
qed

lemma directory_never_returns:
  assumes "path_exists E (config.actua_cert_path (cfg E))
      \<and> path_isdir E (config.actua_cert_path (cfg E))"
  shows "fst (snd (check_real_cert fuel E p)) \<noteq> Returned u"
  using directory_shape [OF assms, of fuel p] job_loop_never_returns [of fuel E _ u]
  by auto

lemma first_boot_runs:
  assumes c: "collaborators_return E"
  shows "\<exists>pre p1. first_boot fuel E p =
          (pre @ fst (job_loop fuel E (new_jobagent E (new_jobagent_args (cfg E) p1))),
           Running, p1)"
proof -
  from c have a: "agent_returns E" by (simp add: collaborators_return_def)
  have g: "fst (get_official_certs E None p) = None"
    using c by (simp add: collaborators_return_def)
  have o: "py_open E (bootstrap_path E) = None \<or> py_open E (bootstrap_path E) = Some IOError"
    using c by (simp add: collaborators_return_def)
  from first_boot_shape [of fuel E p] show ?thesis
  proof
    assume "\<exists>evs e p1. first_boot fuel E p = (evs, Raised e, p1)"
    then obtain evs e p1 where r: "first_boot fuel E p = (evs, Raised e, p1)" by blast
    have False
    proof (cases rule: run_provisioning_cases [where E=E and p=p])
      case cannot_open
      from first_boot_returned [OF run_provisioning_cannot_open [OF this], of fuel] r
        job_loop_runs [OF a, of fuel]
      show False by simp
    next
      case (returns p')
      from first_boot_returned [OF run_provisioning_returns [OF this], of fuel] r
        job_loop_runs [OF a, of fuel]
      show False by simp
    next
      case (caught p')
      with g show False by simp
    next
      case (propagates e' p')
      with g show False by simp
    next
      case (open_raises e')
      with o show False by simp
    qed
    then show ?thesis ..
  next
    assume "\<exists>pre p1. first_boot fuel E p =
         (pre @ fst (job_loop fuel E (new_jobagent E (new_jobagent_args (cfg E) p1))),
          snd (job_loop fuel E (new_jobagent E (new_jobagent_args (cfg E) p1))), p1)"
    then show ?thesis using job_loop_runs [OF a, of fuel] by simp
  qed
qed

lemma already_provisioned_runs:
  assumes c: "collaborators_return E"
    and d: "(\<exists>c \<in> set (listdir E (config.actua_cert_path (cfg E))). endswith c ''.crt'')
          \<and> (\<exists>k \<in> set (listdir E (config.actua_cert_path (cfg E))). endswith k ''.key'')"
  shows "\<exists>pre p1. already_provisioned fuel E p =
          (pre @ fst (job_loop fuel E (new_jobagent E (new_jobagent_args (cfg E) p1))),
           Running, p1)"
proof -
  from c have a: "agent_returns E" by (simp add: collaborators_return_def)
  have t: "fst (test_restricted_topic E ''test message'' q) = None" for q
    using c by (simp add: collaborators_return_def)
  have ok: "fst (discover_identity (listdir E (config.actua_cert_path (cfg E)))
               (p\<lparr>isFirst := False\<rparr>)) = None"
    using d discover_identity_ok_iff by blast
  from already_provisioned_shape [of fuel E p] show ?thesis
  proof
    assume "\<exists>evs e p1. already_provisioned fuel E p = (evs, Raised e, p1)"
    then obtain evs e p1 where r: "already_provisioned fuel E p = (evs, Raised e, p1)"
      by blast
    have False
    proof (cases rule: already_provisioned_cases [where E=E and p=p])
      case (index_error e' p1')
      with ok show False by simp
    next
      case (probe_raise p2 e' p3)
      with t [of p2] show False by simp
    next
      case (run p2 p3)
      from already_provisioned_run [OF this, of fuel] r job_loop_runs [OF a, of fuel]
      show False by simp
    qed
    then show ?thesis ..
  next
    assume "\<exists>pre p1. already_provisioned fuel E p =
         (pre @ fst (job_loop fuel E (new_jobagent E (new_jobagent_args (cfg E) p1))),
          snd (job_loop fuel E (new_jobagent E (new_jobagent_args (cfg E) p1))), p1)"
    then show ?thesis using job_loop_runs [OF a, of fuel] by simp
  qed
qed

lemma job_loop_running_facts:
  assumes "snd (job_loop fuel E s) = Running"
  shows "fuel \<le> length (pre @ fst (job_loop fuel E s))"
    and "0 < fuel \<longrightarrow> Init \<in> set (pre @ fst (job_loop fuel E s))"
proof -
  from job_loop_length [OF assms] show "fuel \<le> length (pre @ fst (job_loop fuel E s))"
    by simp
  show "0 < fuel \<longrightarrow> Init \<in> set (pre @ fst (job_loop fuel E s))"
  proof
    assume "0 < fuel"
    then obtain n where "fuel = Suc n" by (cases fuel) auto
    with job_loop_hd [of n E s] have "Init \<in> set (fst (job_loop fuel E s))"
      by (metis list.set_sel(1))
    then show "Init \<in> set (pre @ fst (job_loop fuel E s))" by simp
  qed
qed

text \<open>
  C10, as the script has it. \<open>check_real_cert\<close> returns exactly when the path does not
  exist or is not a directory, and then at once. When the directory exists it never
  returns, whatever the fuel. When moreover the directory is empty or lists a \<open>.crt\<close>
  and a \<open>.key\<close> entry, and no collaborator raises, the run reaches the job loop and
  stays in it: it is still running after any amount of fuel, has called \<open>init()\<close>,
  and has made at least as many calls as it was given fuel.
\<close>

theorem check_real_cert_returns_iff_no_directory:
  "((\<exists>fuel. fst (snd (check_real_cert fuel E p)) = Returned ())
      \<longleftrightarrow> \<not> (path_exists E (config.actua_cert_path (cfg E))
               \<and> path_isdir E (config.actua_cert_path (cfg E))))
   \<and> (\<not> (path_exists E (config.actua_cert_path (cfg E))
          \<and> path_isdir E (config.actua_cert_path (cfg E))) \<longrightarrow>
        (\<forall>fuel. check_real_cert fuel E p =
           ([Print ''Given directory doesn't exist''], Returned (), p)))
   \<and> (path_exists E (config.actua_cert_path (cfg E))
        \<and> path_isdir E (config.actua_cert_path (cfg E))
        \<and> collaborators_return E
        \<and> (listdir E (config.actua_cert_path (cfg E)) = []
            \<or> (\<exists>c \<in> set (listdir E (config.actua_cert_path (cfg E))). endswith c ''.crt'')
              \<and> (\<exists>k \<in> set (listdir E (config.actua_cert_path (cfg E))). endswith k ''.key''))
        \<longrightarrow>
        (\<forall>fuel. fst (snd (check_real_cert fuel E p)) = Running
           \<and> (0 < fuel \<longrightarrow> Init \<in> set (fst (check_real_cert fuel E p)))
           \<and> fuel \<le> length (fst (check_real_cert fuel E p))))"
proof (intro conjI)
  show "(\<exists>fuel. fst (snd (check_real_cert fuel E p)) = Returned ())
      \<longleftrightarrow> \<not> (path_exists E (config.actua_cert_path (cfg E))
               \<and> path_isdir E (config.actua_cert_path (cfg E)))"
  proof
    assume "\<exists>fuel. fst (snd (check_real_cert fuel E p)) = Returned ()"
    then show "\<not> (path_exists E (config.actua_cert_path (cfg E))
               \<and> path_isdir E (config.actua_cert_path (cfg E)))"
      using directory_never_returns [of E _ p "()"] by blast
  next
    assume "\<not> (path_exists E (config.actua_cert_path (cfg E))
               \<and> path_isdir E (config.actua_cert_path (cfg E)))"
    from check_real_cert_absent [OF this, of 0 p]
    have "fst (snd (check_real_cert 0 E p)) = Returned ()" by simp
    then show "\<exists>fuel. fst (snd (check_real_cert fuel E p)) = Returned ()" ..
  qed
next
  show "\<not> (path_exists E (config.actua_cert_path (cfg E))
          \<and> path_isdir E (config.actua_cert_path (cfg E))) \<longrightarrow>
        (\<forall>fuel. check_real_cert fuel E p =
           ([Print ''Given directory doesn't exist''], Returned (), p))"
    using check_real_cert_absent [of E _ p] by blast
next
  show "path_exists E (config.actua_cert_path (cfg E))
        \<and> path_isdir E (config.actua_cert_path (cfg E))
        \<and> collaborators_return E
        \<and> (listdir E (config.actua_cert_path (cfg E)) = []
            \<or> (\<exists>c \<in> set (listdir E (config.actua_cert_path (cfg E))). endswith c ''.crt'')
              \<and> (\<exists>k \<in> set (listdir E (config.actua_cert_path (cfg E))). endswith k ''.key''))
        \<longrightarrow>
        (\<forall>fuel. fst (snd (check_real_cert fuel E p)) = Running
           \<and> (0 < fuel \<longrightarrow> Init \<in> set (fst (check_real_cert fuel E p)))
           \<and> fuel \<le> length (fst (check_real_cert fuel E p)))"
  proof (intro impI allI)
    fix fuel
    assume h: "path_exists E (config.actua_cert_path (cfg E))
        \<and> path_isdir E (config.actua_cert_path (cfg E))
        \<and> collaborators_return E
        \<and> (listdir E (config.actua_cert_path (cfg E)) = []
            \<or> (\<exists>c \<in> set (listdir E (config.actua_cert_path (cfg E))). endswith c ''.crt'')
              \<and> (\<exists>k \<in> set (listdir E (config.actua_cert_path (cfg E))). endswith k ''.key''))"
    then have c: "collaborators_return E" by simp
    then have a: "agent_returns E" by (simp add: collaborators_return_def)
    have "\<exists>pre p1. check_real_cert fuel E p =
          (pre @ fst (job_loop fuel E (new_jobagent E (new_jobagent_args (cfg E) p1))),
           Running, p1)"
    proof (cases "listdir E (config.actua_cert_path (cfg E)) = []")
      case True
      with h have "check_real_cert fuel E p = first_boot fuel E p"
        by (simp add: check_real_cert_empty)
      with first_boot_runs [OF c, of fuel p] show ?thesis by simp
    next
      case False
      with h have "check_real_cert fuel E p = already_provisioned fuel E p"
        by (simp add: check_real_cert_nonempty)
      moreover from h False
      have "(\<exists>c \<in> set (listdir E (config.actua_cert_path (cfg E))). endswith c ''.crt'')
          \<and> (\<exists>k \<in> set (listdir E (config.actua_cert_path (cfg E))). endswith k ''.key'')"
        by blast
      from already_provisioned_runs [OF c this, of fuel p]
      have "\<exists>pre p1. already_provisioned fuel E p =
          (pre @ fst (job_loop fuel E (new_jobagent E (new_jobagent_args (cfg E) p1))),
           Running, p1)" .
      ultimately show ?thesis by simp
    qed
    then obtain pre p1 where r: "check_real_cert fuel E p =
          (pre @ fst (job_loop fuel E (new_jobagent E (new_jobagent_args (cfg E) p1))),
           Running, p1)" by blast
    have run: "snd (job_loop fuel E (new_jobagent E (new_jobagent_args (cfg E) p1))) = Running"
      by (rule job_loop_runs [OF a])
    from job_loop_running_facts [OF run, of pre] r
    show "fst (snd (check_real_cert fuel E p)) = Running
           \<and> (0 < fuel \<longrightarrow> Init \<in> set (fst (check_real_cert fuel E p)))
           \<and> fuel \<le> length (fst (check_real_cert fuel E p))"
      by simp
  qed
qed

theorem check_real_cert_returns_iff_no_directory_witness:
  "\<not> (path_exists (demo_env False [] True None)
         (config.actua_cert_path (cfg (demo_env False [] True None)))
      \<and> path_isdir (demo_env False [] True None)
         (config.actua_cert_path (cfg (demo_env False [] True None))))
   \<and> check_real_cert 7 (demo_env False [] True None) demo_provisioner =
       ([Print ''Given directory doesn't exist''], Returned (), demo_provisioner)
   \<and> path_exists (demo_env True [] True None)
         (config.actua_cert_path (cfg (demo_env True [] True None)))
   \<and> path_isdir (demo_env True [] True None)
         (config.actua_cert_path (cfg (demo_env True [] True None)))
   \<and> collaborators_return (demo_env True [] True None)
   \<and> listdir (demo_env True [] True None)
         (config.actua_cert_path (cfg (demo_env True [] True None))) = []
   \<and> fst (snd (check_real_cert 7 (demo_env True [] True None) demo_provisioner)) = Running
   \<and> Init \<in> set (fst (check_real_cert 7 (demo_env True [] True None) demo_provisioner))
   \<and> 7 \<le> length (fst (check_real_cert 7 (demo_env True [] True None) demo_provisioner))"
proof -
  have a: "\<not> (path_exists (demo_env False [] True None)
         (config.actua_cert_path (cfg (demo_env False [] True None)))
      \<and> path_isdir (demo_env False [] True None)
         (config.actua_cert_path (cfg (demo_env False [] True None))))"
    by (simp add: demo_env_def demo_config_def)
  have b: "path_exists (demo_env True [] True None)
         (config.actua_cert_path (cfg (demo_env True [] True None)))
   \<and> path_isdir (demo_env True [] True None)
         (config.actua_cert_path (cfg (demo_env True [] True None)))
   \<and> listdir (demo_env True [] True None)
         (config.actua_cert_path (cfg (demo_env True [] True None))) = []"
    by (simp add: demo_env_def demo_config_def)
  have c: "collaborators_return (demo_env True [] True None)"
    by (simp add: collaborators_return_def agent_returns_def demo_env_def)
  from check_real_cert_returns_iff_no_directory
         [of "demo_env False [] True None" demo_provisioner] a
  have first: "check_real_cert 7 (demo_env False [] True None) demo_provisioner =
       ([Print ''Given directory doesn't exist''], Returned (), demo_provisioner)"
    by blast
  from check_real_cert_returns_iff_no_directory
         [of "demo_env True [] True None" demo_provisioner] b c
  have second: "fst (snd (check_real_cert 7 (demo_env True [] True None) demo_provisioner))
       = Running
   \<and> (0 < (7::nat) \<longrightarrow>
       Init \<in> set (fst (check_real_cert 7 (demo_env True [] True None) demo_provisioner)))
   \<and> 7 \<le> length (fst (check_real_cert 7 (demo_env True [] True None) demo_provisioner))"
    by blast
  from a b c first second show ?thesis by simp
qed

text \<open>
  The claim C10 as it is written fails on a directory that has entries but none ending
  in \<open>.crt\<close>: the run ends with \<open>IndexError\<close> after its first message and never
  reaches the job loop.
\<close>

theorem check_real_cert_index_error_counterexample:
  "check_real_cert 7 (demo_env True [''readme.txt''] True None) demo_provisioner =
     ([Print directory_not_empty_msg], Raised IndexError,
      demo_provisioner\<lparr>isFirst := False\<rparr>)"
  by code_simp

section \<open>The connectivity probe\<close>

lemma job_loop_only_agent:
  "Open_file path \<notin> set (fst (job_loop n E s))"
  "Test_restricted_topic m \<notin> set (fst (job_loop n E s))"
  using job_loop_events [of n E s] by (auto simp: agent_events_def)

text \<open>
  C6, as the script has it. When the directory has entries and the discovery finds a
  certificate and a key name, \<open>check_real_cert\<close> prints, then probes once with
  \<open>test_restricted_topic(message="test message")\<close>. It opens no file, so it does not
  look into the certificate or the key; it makes no provisioning call, whatever the
  probe does; and when the probe raises, the exception ends \<open>check_real_cert\<close>.
\<close>

theorem provisioned_probe_without_fallback:
  assumes dir: "path_exists E (config.actua_cert_path (cfg E))"
      "path_isdir E (config.actua_cert_path (cfg E))"
      "listdir E (config.actua_cert_path (cfg E)) \<noteq> []"
    and found: "discover_identity (listdir E (config.actua_cert_path (cfg E)))
                  (p\<lparr>isFirst := False\<rparr>) = (None, p2)"
  shows "take 2 (fst (check_real_cert fuel E p)) =
           [Print directory_not_empty_msg, Test_restricted_topic ''test message'']
       \<and> (\<forall>m. Test_restricted_topic m \<notin> set (drop 2 (fst (check_real_cert fuel E p))))
       \<and> (\<forall>path. Open_file path \<notin> set (fst (check_real_cert fuel E p)))
       \<and> (\<forall>ev \<in> set (fst (check_real_cert fuel E p)). \<not> is_provisioning_call ev)
       \<and> (\<forall>e p3. test_restricted_topic E ''test message'' p2 = (Some e, p3) \<longrightarrow>
            check_real_cert fuel E p =
              ([Print directory_not_empty_msg, Test_restricted_topic ''test message''],
               Raised e, p3))"
proof -
  have eq: "check_real_cert fuel E p = already_provisioned fuel E p"
    using dir by (rule check_real_cert_nonempty)
  have calls: "\<forall>ev \<in> set (fst (check_real_cert fuel E p)). \<not> is_provisioning_call ev"
    unfolding eq using already_provisioned_no_provisioning by blast
  obtain r p3 where t: "test_restricted_topic E ''test message'' p2 = (r, p3)"
    by (cases "test_restricted_topic E ''test message'' p2")
  show ?thesis
  proof (cases r)
    case None
    from already_provisioned_run [OF found, of p3 fuel] t None
    have "check_real_cert fuel E p =
     (Print directory_not_empty_msg # Test_restricted_topic ''test message''
        # Print ''Starting sensor'' # sensor_simulator
        @ Print ''Starting job agent to listen for jobs'' # fst (run_jobagent fuel E p3),
      snd (job_loop fuel E (new_jobagent E (new_jobagent_args (cfg E) p3))), p3)"
      unfolding eq by simp
    then show ?thesis using calls t None job_loop_only_agent [of _ fuel E]
      by (simp add: run_jobagent_eq sensor_simulator_def)
  next
    case (Some e)
    from already_provisioned_probe_raise [OF found, of e p3 fuel] t Some
    have "check_real_cert fuel E p =
     ([Print directory_not_empty_msg, Test_restricted_topic ''test message''],
      Raised e, p3)"
      unfolding eq by simp
    then show ?thesis using calls t Some by simp
  qed
qed

theorem provisioned_probe_without_fallback_witness:
  "path_exists (demo_env True [''42.crt'', ''42.key''] True (Some (OtherError ''denied'')))
     (config.actua_cert_path
       (cfg (demo_env True [''42.crt'', ''42.key''] True (Some (OtherError ''denied'')))))
   \<and> path_isdir (demo_env True [''42.crt'', ''42.key''] True (Some (OtherError ''denied'')))
     (config.actua_cert_path
       (cfg (demo_env True [''42.crt'', ''42.key''] True (Some (OtherError ''denied'')))))
   \<and> listdir (demo_env True [''42.crt'', ''42.key''] True (Some (OtherError ''denied'')))
     (config.actua_cert_path
       (cfg (demo_env True [''42.crt'', ''42.key''] True (Some (OtherError ''denied'')))))
       = [''42.crt'', ''42.key'']
   \<and> discover_identity [''42.crt'', ''42.key''] (demo_provisioner\<lparr>isFirst := False\<rparr>)
       = (None, demo_provisioner\<lparr>isFirst := False, new_cert_name := ''42.crt'',
                  new_key_name := ''42.key''\<rparr>)
   \<and> check_real_cert 4
        (demo_env True [''42.crt'', ''42.key''] True (Some (OtherError ''denied'')))
        demo_provisioner =
       ([Print directory_not_empty_msg, Test_restricted_topic ''test message''],
        Raised (OtherError ''denied''),
        demo_provisioner\<lparr>isFirst := False, new_cert_name := ''42.crt'',
                  new_key_name := ''42.key''\<rparr>)"
proof -
  have a: "path_exists (demo_env True [''42.crt'', ''42.key''] True (Some (OtherError ''denied'')))
     (config.actua_cert_path
       (cfg (demo_env True [''42.crt'', ''42.key''] True (Some (OtherError ''denied'')))))"
    by (simp add: demo_env_def demo_config_def)
  have b: "path_isdir (demo_env True [''42.crt'', ''42.key''] True (Some (OtherError ''denied'')))
     (config.actua_cert_path
       (cfg (demo_env True [''42.crt'', ''42.key''] True (Some (OtherError ''denied'')))))"
    by (simp add: demo_env_def demo_config_def)
  have l: "listdir (demo_env True [''42.crt'', ''42.key''] True (Some (OtherError ''denied'')))
     (config.actua_cert_path
       (cfg (demo_env True [''42.crt'', ''42.key''] True (Some (OtherError ''denied'')))))
       = [''42.crt'', ''42.key'']"
    by (simp add: demo_env_def demo_config_def)
  then have c: "listdir (demo_env True [''42.crt'', ''42.key''] True (Some (OtherError ''denied'')))
     (config.actua_cert_path
       (cfg (demo_env True [''42.crt'', ''42.key''] True (Some (OtherError ''denied''))))) \<noteq> []"
    by simp
  have d: "discover_identity [''42.crt'', ''42.key''] (demo_provisioner\<lparr>isFirst := False\<rparr>)
       = (None, demo_provisioner\<lparr>isFirst := False, new_cert_name := ''42.crt'',
                  new_key_name := ''42.key''\<rparr>)"
    by (simp add: discover_identity_def index0_def endswith_def)
  have t: "test_restricted_topic
        (demo_env True [''42.crt'', ''42.key''] True (Some (OtherError ''denied'')))
        ''test message''
        (demo_provisioner\<lparr>isFirst := False, new_cert_name := ''42.crt'',
                  new_key_name := ''42.key''\<rparr>)
      = (Some (OtherError ''denied''),
         demo_provisioner\<lparr>isFirst := False, new_cert_name := ''42.crt'',
                  new_key_name := ''42.key''\<rparr>)"
    by (simp add: demo_env_def)
  have d': "discover_identity
        (listdir (demo_env True [''42.crt'', ''42.key''] True (Some (OtherError ''denied'')))
          (config.actua_cert_path
            (cfg (demo_env True [''42.crt'', ''42.key''] True (Some (OtherError ''denied''))))))
        (demo_provisioner\<lparr>isFirst := False\<rparr>)
       = (None, demo_provisioner\<lparr>isFirst := False, new_cert_name := ''42.crt'',
                  new_key_name := ''42.key''\<rparr>)"
    by (simp only: l d)
  from provisioned_probe_without_fallback [OF a b c d', of 4] t
  have "check_real_cert 4
        (demo_env True [''42.crt'', ''42.key''] True (Some (OtherError ''denied'')))
        demo_provisioner =
       ([Print directory_not_empty_msg, Test_restricted_topic ''test message''],
        Raised (OtherError ''denied''),
        demo_provisioner\<lparr>isFirst := False, new_cert_name := ''42.crt'',
                  new_key_name := ''42.key''\<rparr>)"
    by blast
  with a b l d show ?thesis by blast
qed

text \<open>
  The claim C6 as it is written fails when the probe fails: the exception of the probe
  leaves \<open>check_real_cert\<close>, and no provisioning call follows.
\<close>

theorem probe_failure_no_fallback_counterexample:
  "fst (snd (check_real_cert 4
      (demo_env True [''42.crt'', ''42.key''] True (Some (OtherError ''denied'')))
      demo_provisioner)) = Raised (OtherError ''denied'')
   \<and> filter is_provisioning_call
       (fst (check_real_cert 4
          (demo_env True [''42.crt'', ''42.key''] True (Some (OtherError ''denied'')))
          demo_provisioner)) = []"
  by code_simp

end
